theory Spec2Isabelle
  imports Main "HOL-Library.Word"
begin

unbundle bit_operations_syntax

section \<open>Data model of libxyzimage (src/src/xyzimage.c, first revision in the file)\<close>

text \<open>
  \<open>src/src/xyzimage.c\<close> holds two revisions of the library. The model is of the first one,
  which reads the stream in two steps, retries the compression once and converts the byte
  order; its public interface is the header \<open>src/unnamed/part_001\<close>. Effects are explicit:
  a function of the model takes the state it reads (the structure behind a handle pointer,
  the state behind \<open>userdata\<close>, the caller's error variable) and returns what it leaves.
\<close>

type_synonym byte = "8 word"
type_synonym uint16_t = "16 word"
type_synonym uint32_t = "32 word"

text \<open>
  Modelled from the spec: the declaration of \<open>enum XYZImage_Error\<close> that belongs to this
  revision of \<open>xyzimage.c\<close> is missing (the headers present still declare
  \<open>XYZIMAGE_ERROR_IO_READ_BAD_IMAGE\<close>). The constructors are the codes the source names in
  \<open>xyzimage_get_error_message\<close>; \<open>XYZIMAGE_ERROR_OK\<close> is the code 0 that the source tests
  with \<open>*error != 0\<close>. The spec's names: malformed-header is \<open>IO_READ_BAD_HEADER\<close>,
  oversized-stream is \<open>IO_READ_IMAGE_TOO_BIG\<close>, truncated-or-corrupt-stream is
  \<open>IO_READ_IMAGE_TOO_SMALL\<close>, output-buffer-too-small is \<open>BUFFER_TOO_SMALL\<close>.
\<close>

datatype xyzimage_error_t =
    XYZIMAGE_ERROR_OK
  | XYZIMAGE_ERROR_IO_READ_GENERIC
  | XYZIMAGE_ERROR_IO_READ_BAD_HEADER
  | XYZIMAGE_ERROR_IO_READ_IMAGE_TOO_BIG
  | XYZIMAGE_ERROR_IO_READ_IMAGE_TOO_SMALL
  | XYZIMAGE_ERROR_IO_READ_END_OF_FILE
  | XYZIMAGE_ERROR_IO_WRITE
  | XYZIMAGE_ERROR_IO_COMPRESS
  | XYZIMAGE_ERROR_XYZIMAGE_INVALID
  | XYZIMAGE_ERROR_BUFFER_TOO_SMALL
  | XYZIMAGE_ERROR_IMAGE_TOO_MANY_COLORS
  | XYZIMAGE_ERROR_IMAGE_ALPHA_CHANNEL
  | XYZIMAGE_ERROR_IMAGE_NOT_INDEXED
  | XYZIMAGE_ERROR_POINTER_BAD
  | XYZIMAGE_ERROR_OUT_OF_MEMORY
  | XYZIMAGE_ERROR_ZLIB
  | XYZIMAGE_ERROR_NOT_IMPLEMENTED
  | XYZIMAGE_ERROR_FORMAT_NOT_SUPPORTED

datatype XYZImage_Format = XYZIMAGE_FORMAT_NONE | XYZIMAGE_FORMAT_DEFAULT

record XYZImage_PaletteEntry =
  red :: byte
  green :: byte
  blue :: byte

text \<open>\<open>XYZImage_Palette\<close>: the array \<open>entry[XYZIMAGE_PALETTE_ENTRIES]\<close>.\<close>

type_synonym XYZImage_Palette = "XYZImage_PaletteEntry list"

definition XYZIMAGE_PALETTE_ENTRIES :: nat where
  "XYZIMAGE_PALETTE_ENTRIES = 256"

definition XYZIMAGE_PALETTE_SIZE :: nat where
  "XYZIMAGE_PALETTE_SIZE = XYZIMAGE_PALETTE_ENTRIES * 3"

definition XYZPRIV_CURRENT_STRUCT_VERSION :: uint32_t where
  "XYZPRIV_CURRENT_STRUCT_VERSION = 1"

definition XYZPRIV_HEADER_SIZE :: nat where
  "XYZPRIV_HEADER_SIZE = 8"

text \<open>
  An \<open>xyzimage_error_t*\<close> argument: \<open>None\<close> is the null pointer, \<open>Some e\<close> a pointer to a
  variable that holds \<open>e\<close>. A callback reports through such a pointer; its model returns
  \<open>Some e\<close> when it stores \<open>e\<close> and \<open>None\<close> when it leaves the variable alone.
\<close>

type_synonym error_ptr = "xyzimage_error_t option"

text \<open>
  \<open>xyzimage_compress_func_t\<close>: the input buffer (its length is \<open>size_in\<close>) and the capacity
  \<open>size_out\<close> of the output buffer give the bytes written to the output buffer (the returned
  count is their number) and the error code stored, if any.
\<close>

type_synonym xyzimage_compress_func_t =
  "byte list \<Rightarrow> nat \<Rightarrow> byte list \<times> xyzimage_error_t option"

text \<open>
  \<open>xyzimage_read_func_t\<close> and \<open>xyzimage_write_func_t\<close> over the state \<open>'u\<close> behind
  \<open>userdata\<close>. A read of \<open>amount\<close> bytes gives the new state, the bytes put into the buffer
  (the returned count is their number) and the error code stored, if any. A write of a buffer
  gives the new state, the returned count and the error code stored, if any.
\<close>

type_synonym 'u xyzimage_read_func_t =
  "'u \<Rightarrow> nat \<Rightarrow> 'u \<times> byte list \<times> xyzimage_error_t option"

type_synonym 'u xyzimage_write_func_t =
  "'u \<Rightarrow> byte list \<Rightarrow> 'u \<times> nat \<times> xyzimage_error_t option"

text \<open>
  \<open>struct XYZImage\<close>. \<open>size_t\<close> values are natural numbers (they stay below \<open>2 ^ 33\<close>, see
  \<open>xyz_size_bound\<close>); \<open>data\<close> is \<open>None\<close> for the null pointer and otherwise the content of the
  allocated pixel buffer.
\<close>

record XYZImage =
  header :: "byte list"
  version :: uint32_t
  width :: uint16_t
  height :: uint16_t
  format :: XYZImage_Format
  palette :: XYZImage_Palette
  data_len :: nat
  data_len_compressed :: nat
  data :: "byte list option"
  compress_func :: xyzimage_compress_func_t

text \<open>
  The places where the source allocates memory with \<open>malloc\<close>, \<open>calloc\<close> or
  \<open>realloc\<close> and tests the result. Each is reached at most once in a call of a public
  function, so whether it succeeds is a function of the place and the size asked for.
\<close>

datatype alloc_site =
    Alloc_data
  | Open_compressed
  | Open_decompressed
  | Open_realloc
  | Write_decompressed
  | Write_compressed
  | Write_realloc
  | Compress_tmp

text \<open>
  What the library takes from its platform: the byte order of the host, the allocator, the
  content of memory that was allocated and not yet written, and zlib's \<open>compressBound\<close>,
  \<open>compress2\<close> (source, capacity of the destination, level) and \<open>uncompress\<close> (source,
  capacity of the destination). The zlib functions give their return code and the bytes they
  put into the destination, whose number is the \<open>destLen\<close> they report.
\<close>

record host =
  is_big :: bool
  malloc_ok :: "alloc_site \<Rightarrow> nat \<Rightarrow> bool"
  junk :: "nat \<Rightarrow> byte"
  compressBound :: "nat \<Rightarrow> nat"
  compress2 :: "byte list \<Rightarrow> nat \<Rightarrow> int \<Rightarrow> int \<times> byte list"
  uncompress :: "byte list \<Rightarrow> nat \<Rightarrow> int \<times> byte list"

definition Z_OK :: int where
  "Z_OK = 0"

definition Z_BEST_COMPRESSION :: int where
  "Z_BEST_COMPRESSION = 9"

text \<open>
  The calls that leave the library, in the order they are made: an allocation (place, size),
  a call of the read function (amount), of the write function (buffer) and of the handle's
  compression function (output capacity). A compression function is a function of its
  arguments in the model, so the allocation inside \<open>xyzpriv_compress_func\<close> is not listed.
\<close>

datatype event =
    Alloc alloc_site nat
  | Read nat
  | Write "byte list"
  | Compress nat

record 'u world =
  userdata :: 'u
  trace :: "event list"

subsection \<open>Private helpers\<close>

definition xyzpriv_set_error :: "error_ptr \<Rightarrow> xyzimage_error_t \<Rightarrow> error_ptr" where
  "xyzpriv_set_error error which = (case error of None \<Rightarrow> None | Some _ \<Rightarrow> Some which)"

text \<open>The test \<open>error && *error != 0\<close>.\<close>

definition error_is_set :: "error_ptr \<Rightarrow> bool" where
  "error_is_set error = (case error of None \<Rightarrow> False | Some e \<Rightarrow> e \<noteq> XYZIMAGE_ERROR_OK)"

text \<open>A callback was handed \<open>error\<close> and stored, or did not store, a code through it.\<close>

definition callback_error :: "error_ptr \<Rightarrow> xyzimage_error_t option \<Rightarrow> error_ptr" where
  "callback_error error r = (case r of None \<Rightarrow> error | Some e \<Rightarrow> xyzpriv_set_error error e)"

text \<open>A callback was handed the address of the local variable \<open>e\<close>.\<close>

definition callback_local :: "xyzimage_error_t \<Rightarrow> xyzimage_error_t option \<Rightarrow> xyzimage_error_t" where
  "callback_local e r = (case r of None \<Rightarrow> e | Some e' \<Rightarrow> e')"

text \<open>
  \<open>*us = (*us >> 8) | (*us << 8)\<close> on a big-endian host: the operand is promoted to a 32-bit
  \<open>int\<close> and the result is cut to 16 bits by the assignment.
\<close>

definition xyzpriv_swap_when_big :: "host \<Rightarrow> uint16_t \<Rightarrow> uint16_t" where
  "xyzpriv_swap_when_big hst us =
     (if \<not> is_big hst then us
      else ucast (drop_bit 8 (ucast us :: uint32_t) OR push_bit 8 (ucast us :: uint32_t)))"

text \<open>
  The two bytes of a \<open>uint16_t\<close> object in the host's memory, lowest address first, and the
  value of a \<open>uint16_t\<close> object into which two bytes were stored.
\<close>

definition host_bytes16 :: "host \<Rightarrow> uint16_t \<Rightarrow> byte list" where
  "host_bytes16 hst v =
     (if is_big hst then [ucast (drop_bit 8 v), ucast v] else [ucast v, ucast (drop_bit 8 v)])"

definition host_word16 :: "host \<Rightarrow> byte list \<Rightarrow> uint16_t" where
  "host_word16 hst bs =
     (if is_big hst then push_bit 8 (ucast (bs ! 0)) OR ucast (bs ! 1)
      else push_bit 8 (ucast (bs ! 1)) OR ucast (bs ! 0))"

definition struct_magic :: "byte list" where
  "struct_magic = [0x4C, 0x58, 0x59, 0x5A]"

definition xyz_magic :: "byte list" where
  "xyz_magic = [0x58, 0x59, 0x5A, 0x31]"

definition xyzpriv_malloc :: "host \<Rightarrow> 'u world \<Rightarrow> alloc_site \<Rightarrow> nat \<Rightarrow> bool \<times> 'u world" where
  "xyzpriv_malloc hst w site n = (malloc_ok hst site n, w\<lparr>trace := trace w @ [Alloc site n]\<rparr>)"

text \<open>\<open>xyzpriv_compress_func\<close>, the default compression function.\<close>

definition xyzpriv_compress_func :: "host \<Rightarrow> xyzimage_compress_func_t" where
  "xyzpriv_compress_func hst buffer_in len_out =
     (let comp_size = compressBound hst (length buffer_in) in
      if comp_size > len_out then ([], Some XYZIMAGE_ERROR_BUFFER_TOO_SMALL)
      else if \<not> malloc_ok hst Compress_tmp comp_size then ([], Some XYZIMAGE_ERROR_OUT_OF_MEMORY)
      else (case compress2 hst buffer_in comp_size Z_BEST_COMPRESSION of
              (error_code, buffer_out_tmp) \<Rightarrow>
                if error_code \<noteq> Z_OK then ([], Some XYZIMAGE_ERROR_IO_COMPRESS)
                else (buffer_out_tmp, None)))"

text \<open>
  \<open>xyzpriv_alloc\<close>. The source uses the result of \<open>malloc\<close> unchecked, so a run that returns
  from it had the structure allocated. \<open>width\<close> and \<open>height\<close> are not assigned here; the only
  caller assigns them at once, and they are 0 until then in the model.
\<close>

definition xyzpriv_alloc :: "host \<Rightarrow> XYZImage option" where
  "xyzpriv_alloc hst = Some \<lparr>
     header = struct_magic,
     version = XYZPRIV_CURRENT_STRUCT_VERSION,
     width = 0,
     height = 0,
     format = XYZIMAGE_FORMAT_DEFAULT,
     palette = replicate XYZIMAGE_PALETTE_ENTRIES \<lparr>red = 0, green = 0, blue = 0\<rparr>,
     data_len = 0,
     data_len_compressed = 0,
     data = None,
     compress_func = xyzpriv_compress_func hst \<rparr>"

subsection \<open>Validity, release and the accessors\<close>

definition xyzimage_is_valid :: "XYZImage option \<Rightarrow> bool" where
  "xyzimage_is_valid imgp =
     (case imgp of
        None \<Rightarrow> False
      | Some img \<Rightarrow>
          if header img \<noteq> struct_magic then False
          else if version img \<noteq> 1 then False
          else True)"

text \<open>
  A handle pointer \<open>imgp\<close> is \<open>None\<close> when null and otherwise the content of the
  structure it points to.
  \<open>xyzimage_free\<close> gives its return value and what a stale copy of the pointer finds in the
  released structure afterwards (the allocator is taken not to overwrite it).
\<close>

definition xyzimage_free :: "XYZImage option \<Rightarrow> int \<times> XYZImage option" where
  "xyzimage_free imgp =
     (if \<not> xyzimage_is_valid imgp then (0, imgp)
      else (1, map_option
                 (\<lambda>img. img\<lparr>header := (header img)[0 := 0x21], data := None, data_len := 0\<rparr>)
                 imgp))"

definition xyzimage_get_width :: "XYZImage option \<Rightarrow> uint16_t" where
  "xyzimage_get_width imgp =
     (if \<not> xyzimage_is_valid imgp then 0 else width (the imgp))"

definition xyzimage_get_height :: "XYZImage option \<Rightarrow> uint16_t" where
  "xyzimage_get_height imgp =
     (if \<not> xyzimage_is_valid imgp then 0 else height (the imgp))"

definition xyzimage_get_palette ::
  "XYZImage option \<Rightarrow> error_ptr \<Rightarrow> XYZImage_Palette option \<times> error_ptr" where
  "xyzimage_get_palette imgp error0 =
     (let error = xyzpriv_set_error error0 XYZIMAGE_ERROR_OK in
      if \<not> xyzimage_is_valid imgp
      then (None, xyzpriv_set_error error XYZIMAGE_ERROR_XYZIMAGE_INVALID)
      else if format (the imgp) \<noteq> XYZIMAGE_FORMAT_DEFAULT
      then (None, xyzpriv_set_error error XYZIMAGE_ERROR_IMAGE_NOT_INDEXED)
      else (Some (palette (the imgp)), error))"

definition xyzimage_get_format :: "XYZImage option \<Rightarrow> XYZImage_Format" where
  "xyzimage_get_format imgp =
     (if \<not> xyzimage_is_valid imgp then XYZIMAGE_FORMAT_NONE else format (the imgp))"

text \<open>
  \<open>xyzimage_get_buffer\<close>: \<open>len\<close> is \<open>None\<close> for a null pointer and otherwise the content of
  the variable it points to; the results are the returned pointer and that variable.
\<close>

definition xyzimage_get_buffer ::
  "XYZImage option \<Rightarrow> nat option \<Rightarrow> byte list option \<times> nat option" where
  "xyzimage_get_buffer imgp len =
     (if \<not> xyzimage_is_valid imgp then (None, len)
      else (data (the imgp), map_option (\<lambda>_. data_len (the imgp)) len))"

definition xyzimage_get_filesize :: "XYZImage option \<Rightarrow> nat" where
  "xyzimage_get_filesize imgp =
     (if \<not> xyzimage_is_valid imgp then 0
      else unat ((ucast (width (the imgp)) :: uint32_t) * ucast (height (the imgp))
                 + of_nat XYZPRIV_HEADER_SIZE + of_nat XYZIMAGE_PALETTE_SIZE))"

definition xyzimage_get_compressed_filesize :: "XYZImage option \<Rightarrow> nat" where
  "xyzimage_get_compressed_filesize imgp =
     (if \<not> xyzimage_is_valid imgp then 0
      else data_len_compressed (the imgp) + XYZPRIV_HEADER_SIZE)"

definition xyzimage_set_compress_func ::
  "host \<Rightarrow> XYZImage option \<Rightarrow> xyzimage_compress_func_t option \<Rightarrow> XYZImage option" where
  "xyzimage_set_compress_func hst imgp compress_func' =
     (if \<not> xyzimage_is_valid imgp then imgp
      else (case compress_func' of
              None \<Rightarrow> map_option (\<lambda>img. img\<lparr>compress_func := xyzpriv_compress_func hst\<rparr>) imgp
            | Some f \<Rightarrow> map_option (\<lambda>img. img\<lparr>compress_func := f\<rparr>) imgp))"

subsection \<open>Buffers and callbacks\<close>

text \<open>
  Memory that was allocated and not written yet: the bytes at offsets \<open>a\<close> up to \<open>b\<close> of
  a fresh buffer. \<open>buf_store buf off bs\<close> is \<open>buf\<close> after \<open>bs\<close> was written at offset \<open>off\<close>
  (inside the buffer when \<open>off + length bs \<le> length buf\<close>, which the callers' contracts give).
\<close>

definition fresh :: "host \<Rightarrow> nat \<Rightarrow> nat \<Rightarrow> byte list" where
  "fresh hst a b = map (junk hst) [a..<b]"

definition buf_store :: "byte list \<Rightarrow> nat \<Rightarrow> byte list \<Rightarrow> byte list" where
  "buf_store buf off bs = take off buf @ bs @ drop (off + length bs) buf"

definition call_read ::
  "'u xyzimage_read_func_t \<Rightarrow> 'u world \<Rightarrow> nat \<Rightarrow> 'u world \<times> byte list \<times> xyzimage_error_t option" where
  "call_read read_func w amount =
     (case read_func (userdata w) amount of
        (u, buf, r) \<Rightarrow> (\<lparr>userdata = u, trace = trace w @ [Read amount]\<rparr>, buf, r))"

definition call_write ::
  "'u xyzimage_write_func_t \<Rightarrow> 'u world \<Rightarrow> byte list \<Rightarrow> 'u world \<times> nat \<times> xyzimage_error_t option" where
  "call_write write_func w buf =
     (case write_func (userdata w) buf of
        (u, res, r) \<Rightarrow> (\<lparr>userdata = u, trace = trace w @ [Write buf]\<rparr>, res, r))"

definition call_compress ::
  "xyzimage_compress_func_t \<Rightarrow> 'u world \<Rightarrow> byte list \<Rightarrow> nat \<Rightarrow>
   'u world \<times> byte list \<times> xyzimage_error_t option" where
  "call_compress f w buffer_in size_out =
     (case f buffer_in size_out of
        (out, r) \<Rightarrow> (w\<lparr>trace := trace w @ [Compress size_out]\<rparr>, out, r))"

text \<open>The expression \<open>(size_t)(XYZIMAGE_PALETTE_SIZE + (uint32_t)image->width * image->height)\<close>.\<close>

definition xyz_size :: "uint16_t \<Rightarrow> uint16_t \<Rightarrow> nat" where
  "xyz_size w h = unat ((of_nat XYZIMAGE_PALETTE_SIZE :: uint32_t) + ucast w * ucast h)"

subsection \<open>Allocation\<close>

definition xyzimage_alloc ::
  "host \<Rightarrow> 'u world \<Rightarrow> uint16_t \<Rightarrow> uint16_t \<Rightarrow> XYZImage_Format \<Rightarrow> error_ptr \<Rightarrow>
   XYZImage option \<times> 'u world \<times> error_ptr" where
  "xyzimage_alloc hst w width' height' format' error0 =
     (let error = xyzpriv_set_error error0 XYZIMAGE_ERROR_OK in
      case format' of
        XYZIMAGE_FORMAT_DEFAULT \<Rightarrow>
          (let multiplier = (1 :: uint32_t) in
           case xyzpriv_alloc hst of
             None \<Rightarrow> (None, w, xyzpriv_set_error error XYZIMAGE_ERROR_OUT_OF_MEMORY)
           | Some img0 \<Rightarrow>
               (let img1 = img0\<lparr>width := width', height := height'\<rparr>;
                    img2 = img1\<lparr>data_len := unat (ucast width' * ucast height' * multiplier)\<rparr>
                in case xyzpriv_malloc hst w Alloc_data (data_len img2) of
                     (ok, w1) \<Rightarrow>
                       if \<not> ok then (None, w1, xyzpriv_set_error error XYZIMAGE_ERROR_OUT_OF_MEMORY)
                       else (Some (img2\<lparr>data := Some (replicate (data_len img2) 0)\<rparr>), w1, error)))
      | _ \<Rightarrow> (None, w, xyzpriv_set_error error XYZIMAGE_ERROR_FORMAT_NOT_SUPPORTED))"

subsection \<open>Decoding\<close>

text \<open>The loop that fills the palette from the inflated buffer.\<close>

definition palette_of_bytes :: "byte list \<Rightarrow> XYZImage_Palette" where
  "palette_of_bytes decompressed_xyz =
     map (\<lambda>i. \<lparr>red = decompressed_xyz ! (i * 3),
               green = decompressed_xyz ! (i * 3 + 1),
               blue = decompressed_xyz ! (i * 3 + 2)\<rparr>)
         [0..<XYZIMAGE_PALETTE_ENTRIES]"

text \<open>
  The reads of the compressed stream in \<open>xyzimage_open\<close> (\<open>compressed_xyz\<close> was allocated
  with \<open>xyz_sz\<close> bytes). The result is \<open>Inl\<close> when growing the buffer failed, and otherwise
  the world, the local \<open>e\<close>, the count \<open>res\<close> and the content of \<open>compressed_xyz\<close>.
\<close>

definition xyzimage_open_read ::
  "host \<Rightarrow> 'u xyzimage_read_func_t \<Rightarrow> nat \<Rightarrow> 'u world \<Rightarrow>
   'u world + ('u world \<times> xyzimage_error_t \<times> nat \<times> byte list)" where
  "xyzimage_open_read hst rfn xyz_sz w6 =
     (case call_read rfn w6 xyz_sz of (w7, buf1, r1) \<Rightarrow>
        (let e1 = callback_local XYZIMAGE_ERROR_OK r1;
             compressed1 = buf_store (fresh hst 0 xyz_sz) 0 buf1
         in if e1 = XYZIMAGE_ERROR_OK then
              (case xyzpriv_malloc hst w7 Open_realloc (xyz_sz * 2) of (ok3, w8) \<Rightarrow>
                 (if \<not> ok3 then Inl w8
                  else (case call_read rfn w8 xyz_sz of (w9, buf2, r2) \<Rightarrow>
                          Inr (w9, callback_local e1 r2, length buf1 + length buf2,
                               buf_store (compressed1 @ fresh hst xyz_sz (xyz_sz * 2))
                                 xyz_sz buf2))))
            else Inr (w7, e1, length buf1, compressed1)))"

text \<open>
  \<open>xyzimage_open\<close> from the inflation on: the stream of \<open>res\<close> bytes in \<open>compressed_xyz\<close>
  was read to its end. (The local \<open>img_buffer_len\<close> is not initialised in the source;
  \<open>xyzimage_get_buffer\<close> assigns it.)
\<close>

definition xyzimage_open_inflate ::
  "host \<Rightarrow> XYZImage \<Rightarrow> nat \<Rightarrow> nat \<Rightarrow> byte list \<Rightarrow> 'u world \<Rightarrow> error_ptr \<Rightarrow>
   XYZImage option \<times> 'u world \<times> error_ptr" where
  "xyzimage_open_inflate hst img xyz_sz res compressed_xyz w9 error =
     (let img1 = img\<lparr>data_len_compressed := res\<rparr> in
      case uncompress hst (take res compressed_xyz) xyz_sz of (zlib_error, out) \<Rightarrow>
        (if zlib_error \<noteq> Z_OK
         then (None, w9, xyzpriv_set_error error XYZIMAGE_ERROR_ZLIB)
         else if length out \<noteq> xyz_sz
         then (None, w9, xyzpriv_set_error error XYZIMAGE_ERROR_IO_READ_IMAGE_TOO_SMALL)
         else
           (let decompressed_xyz = buf_store (fresh hst 0 xyz_sz) 0 out;
                img2 = img1\<lparr>palette := palette_of_bytes decompressed_xyz\<rparr>
            in case xyzimage_get_buffer (Some img2) (Some 0) of (img_buffer, img_buffer_len) \<Rightarrow>
                 (case img_buffer of
                    None \<Rightarrow> (None, w9, error)
                  | Some buf \<Rightarrow>
                      (Some (img2\<lparr>data := Some (buf_store buf 0
                               (take (the img_buffer_len)
                                  (drop XYZIMAGE_PALETTE_SIZE decompressed_xyz)))\<rparr>),
                       w9, error)))))"

text \<open>
  \<open>xyzimage_open\<close> from the allocation of the intermediate buffers on (the handle \<open>img\<close> was
  allocated).
\<close>

definition xyzimage_open_payload ::
  "host \<Rightarrow> 'u xyzimage_read_func_t \<Rightarrow> XYZImage \<Rightarrow> 'u world \<Rightarrow> error_ptr \<Rightarrow>
   XYZImage option \<times> 'u world \<times> error_ptr" where
  "xyzimage_open_payload hst rfn img w4 error =
     (let xyz_sz = xyz_size (width img) (height img) in
      case xyzpriv_malloc hst w4 Open_compressed xyz_sz of (ok1, w5) \<Rightarrow>
       (if \<not> ok1 then (None, w5, xyzpriv_set_error error XYZIMAGE_ERROR_OUT_OF_MEMORY) else
       (case xyzpriv_malloc hst w5 Open_decompressed xyz_sz of (ok2, w6) \<Rightarrow>
       (if \<not> ok2 then (None, w6, xyzpriv_set_error error XYZIMAGE_ERROR_OUT_OF_MEMORY) else
       (case xyzimage_open_read hst rfn xyz_sz w6 of
          Inl w8 \<Rightarrow> (None, w8, xyzpriv_set_error error XYZIMAGE_ERROR_OUT_OF_MEMORY)
        | Inr (w9, e, res, compressed_xyz) \<Rightarrow>
            (if e \<noteq> XYZIMAGE_ERROR_IO_READ_END_OF_FILE then
               (if e = XYZIMAGE_ERROR_OK
                then (None, w9, xyzpriv_set_error error XYZIMAGE_ERROR_IO_READ_IMAGE_TOO_BIG)
                else (None, w9, xyzpriv_set_error error e))
             else xyzimage_open_inflate hst img xyz_sz res compressed_xyz w9 error))))))"

definition xyzimage_open ::
  "host \<Rightarrow> 'u world \<Rightarrow> 'u xyzimage_read_func_t option \<Rightarrow> error_ptr \<Rightarrow>
   XYZImage option \<times> 'u world \<times> error_ptr" where
  "xyzimage_open hst w0 read_func error0 =
     (let error1 = xyzpriv_set_error error0 XYZIMAGE_ERROR_OK in
      case read_func of
        None \<Rightarrow> (None, w0, xyzpriv_set_error error1 XYZIMAGE_ERROR_POINTER_BAD)
      | Some rfn \<Rightarrow>
          (case call_read rfn w0 4 of (w1, xyz_header, r1) \<Rightarrow>
           let error2 = callback_error error1 r1 in
           if length xyz_header \<noteq> 4 \<or> error_is_set error2 then (None, w1, error2)
           else if xyz_header \<noteq> xyz_magic
           then (None, w1, xyzpriv_set_error error2 XYZIMAGE_ERROR_IO_READ_BAD_HEADER)
           else
          (case call_read rfn w1 2 of (w2, width_bytes, r2) \<Rightarrow>
           let error3 = callback_error error2 r2 in
           if length width_bytes \<noteq> 2 \<or> error_is_set error3 then (None, w2, error3)
           else
          (let width' = xyzpriv_swap_when_big hst (host_word16 hst width_bytes) in
           case call_read rfn w2 2 of (w3, height_bytes, r3) \<Rightarrow>
           let error4 = callback_error error3 r3 in
           if length height_bytes \<noteq> 2 \<or> error_is_set error4 then (None, w3, error4)
           else
          (let height' = xyzpriv_swap_when_big hst (host_word16 hst height_bytes) in
           case xyzimage_alloc hst w3 width' height' XYZIMAGE_FORMAT_DEFAULT error4 of
             (imgp, w4, error5) \<Rightarrow>
               if imgp = None \<or> error_is_set error5 then (None, w4, error5)
               else xyzimage_open_payload hst rfn (the imgp) w4 error5)))))"

subsection \<open>Encoding\<close>

text \<open>The loop that writes the palette into the buffer to compress.\<close>

definition palette_bytes :: "XYZImage_Palette \<Rightarrow> byte list" where
  "palette_bytes pal =
     concat (map (\<lambda>i. [red (pal ! i), green (pal ! i), blue (pal ! i)])
                 [0..<XYZIMAGE_PALETTE_ENTRIES])"

text \<open>
  The content of \<open>decompressed_xyz\<close> in \<open>xyzimage_write\<close> after the palette loop and the
  \<open>memcpy\<close> of \<open>data_len\<close> bytes from \<open>data\<close>: a fresh buffer of \<open>xyz_size\<close> bytes with
  the palette bytes stored at offset 0 and the pixel bytes at offset \<open>XYZIMAGE_PALETTE_SIZE\<close>.
\<close>

definition xyzimage_write_fill :: "host \<Rightarrow> XYZImage \<Rightarrow> byte list" where
  "xyzimage_write_fill hst img =
     (let xyz_sz = xyz_size (width img) (height img);
          filled = buf_store (fresh hst 0 xyz_sz) 0 (palette_bytes (palette img))
      in buf_store filled XYZIMAGE_PALETTE_SIZE
           (take (data_len img) (case data img of None \<Rightarrow> [] | Some d \<Rightarrow> d)))"

text \<open>
  \<open>xyzimage_write\<close> from the test of the compression's outcome on: \<open>compressed_xyz\<close> holds
  \<open>compressed\<close>, and \<open>compressed_size\<close> is its length.
\<close>

definition xyzimage_write_stream ::
  "host \<Rightarrow> 'u xyzimage_write_func_t \<Rightarrow> XYZImage \<Rightarrow> byte list \<Rightarrow> 'u world \<Rightarrow> error_ptr \<Rightarrow>
   int \<times> XYZImage option \<times> 'u world \<times> error_ptr" where
  "xyzimage_write_stream hst wfn img compressed w error =
     (let compressed_size = length compressed in
      if compressed_size = 0 \<or> error_is_set error then (0, Some img, w, error)
      else
        (let img1 = img\<lparr>data_len_compressed := compressed_size\<rparr> in
         case call_write wfn w xyz_magic of (w1, res1, r1) \<Rightarrow>
         let error1 = callback_error error r1 in
         if res1 \<noteq> 4 \<or> error_is_set error1 then (0, Some img1, w1, error1)
         else
        (let width' = xyzpriv_swap_when_big hst (width img1) in
         case call_write wfn w1 (host_bytes16 hst width') of (w2, res2, r2) \<Rightarrow>
         let error2 = callback_error error1 r2 in
         if res2 \<noteq> 2 \<or> error_is_set error2 then (0, Some img1, w2, error2)
         else
        (let height' = xyzpriv_swap_when_big hst (height img1) in
         case call_write wfn w2 (host_bytes16 hst height') of (w3, res3, r3) \<Rightarrow>
         let error3 = callback_error error2 r3 in
         if res3 \<noteq> 2 \<or> error_is_set error3 then (0, Some img1, w3, error3)
         else
        (case call_write wfn w3 compressed of (w4, res4, r4) \<Rightarrow>
         let error4 = callback_error error3 r4 in
         if res4 \<noteq> compressed_size \<or> error_is_set error4 then (0, Some img1, w4, error4)
         else (1, Some img1, w4, error4))))))"

text \<open>
  \<open>xyzimage_write\<close> gives its return value, the content of the handle afterwards, the world
  and the caller's error variable.
\<close>

definition xyzimage_write ::
  "host \<Rightarrow> XYZImage option \<Rightarrow> 'u world \<Rightarrow> 'u xyzimage_write_func_t option \<Rightarrow> error_ptr \<Rightarrow>
   int \<times> XYZImage option \<times> 'u world \<times> error_ptr" where
  "xyzimage_write hst imgp w0 write_func error0 =
     (let error1 = xyzpriv_set_error error0 XYZIMAGE_ERROR_OK in
      if \<not> xyzimage_is_valid imgp
      then (0, imgp, w0, xyzpriv_set_error error1 XYZIMAGE_ERROR_XYZIMAGE_INVALID)
      else case write_func of
        None \<Rightarrow> (0, imgp, w0, xyzpriv_set_error error1 XYZIMAGE_ERROR_POINTER_BAD)
      | Some wfn \<Rightarrow>
         (let img = the imgp in
          case format img of
            XYZIMAGE_FORMAT_DEFAULT \<Rightarrow>
             (let xyz_sz = xyz_size (width img) (height img) in
              case xyzpriv_malloc hst w0 Write_decompressed xyz_sz of (ok1, w1) \<Rightarrow>
              if \<not> ok1 then (0, imgp, w1, xyzpriv_set_error error1 XYZIMAGE_ERROR_OUT_OF_MEMORY)
              else
             (let decompressed_xyz = xyzimage_write_fill hst img in
              case xyzpriv_malloc hst w1 Write_compressed xyz_sz of (ok2, w2) \<Rightarrow>
              if \<not> ok2 then (0, imgp, w2, xyzpriv_set_error error1 XYZIMAGE_ERROR_OUT_OF_MEMORY)
              else
             (case call_compress (compress_func img) w2 decompressed_xyz xyz_sz of
                (w3, out1, r1) \<Rightarrow>
              let e = callback_local XYZIMAGE_ERROR_OK r1 in
              if e = XYZIMAGE_ERROR_BUFFER_TOO_SMALL then
                (case xyzpriv_malloc hst w3 Write_realloc (xyz_sz * 2) of (ok3, w4) \<Rightarrow>
                 if \<not> ok3
                 then (0, snd (xyzimage_free imgp), w4,
                       xyzpriv_set_error error1 XYZIMAGE_ERROR_OUT_OF_MEMORY)
                 else
                   (case call_compress (compress_func img) w4 decompressed_xyz (xyz_sz * 2) of
                      (w5, out2, r2) \<Rightarrow>
                        xyzimage_write_stream hst wfn img out2 w5 (callback_error error1 r2)))
              else xyzimage_write_stream hst wfn img out1 w3 (xyzpriv_set_error error1 e))))
          | _ \<Rightarrow> (0, imgp, w0, xyzpriv_set_error error1 XYZIMAGE_ERROR_FORMAT_NOT_SUPPORTED)))"

subsection \<open>The default adapters over a C stream\<close>

text \<open>
  A \<open>FILE\<close> of the C library, as far as the library uses one: the bytes of the file, the
  position and the end-of-file indicator. \<open>fread\<close> delivers what is left up to the amount
  asked for and sets the indicator when that is less; \<open>fwrite\<close> stores the buffer at the
  position. Device errors are outside this model of the C library.
\<close>

record FILE =
  file_bytes :: "byte list"
  file_pos :: nat
  file_eof :: bool

definition fread :: "FILE \<Rightarrow> nat \<Rightarrow> FILE \<times> byte list" where
  "fread f amount =
     (let got = take amount (drop (file_pos f) (file_bytes f)) in
      (f\<lparr>file_pos := file_pos f + length got, file_eof := file_eof f \<or> length got < amount\<rparr>, got))"

definition feof :: "FILE \<Rightarrow> bool" where
  "feof f = file_eof f"

definition fwrite :: "FILE \<Rightarrow> byte list \<Rightarrow> FILE \<times> nat" where
  "fwrite f buf =
     (f\<lparr>file_bytes := buf_store (file_bytes f) (file_pos f) buf,
        file_pos := file_pos f + length buf\<rparr>, length buf)"

definition xyzpriv_fread_func :: "(FILE option) xyzimage_read_func_t" where
  "xyzpriv_fread_func ud amount =
     (case ud of
        None \<Rightarrow> (None, [], Some XYZIMAGE_ERROR_POINTER_BAD)
      | Some f \<Rightarrow>
          (case fread f amount of (f', buf) \<Rightarrow>
             if length buf \<noteq> amount
             then (if feof f' then (Some f', buf, Some XYZIMAGE_ERROR_IO_READ_END_OF_FILE)
                   else (Some f', buf, Some XYZIMAGE_ERROR_IO_READ_GENERIC))
             else (Some f', buf, None)))"

definition xyzpriv_fwrite_func :: "(FILE option) xyzimage_write_func_t" where
  "xyzpriv_fwrite_func ud buf =
     (case ud of
        None \<Rightarrow> (None, 0, Some XYZIMAGE_ERROR_POINTER_BAD)
      | Some f \<Rightarrow>
          (case fwrite f buf of (f', res) \<Rightarrow>
             if res \<noteq> length buf then (Some f', res, Some XYZIMAGE_ERROR_IO_WRITE)
             else (Some f', res, None)))"

definition xyzimage_fopen ::
  "host \<Rightarrow> (FILE option) world \<Rightarrow> error_ptr \<Rightarrow> XYZImage option \<times> (FILE option) world \<times> error_ptr" where
  "xyzimage_fopen hst w error0 =
     (let error = xyzpriv_set_error error0 XYZIMAGE_ERROR_OK in
      if userdata w = None then (None, w, xyzpriv_set_error error XYZIMAGE_ERROR_POINTER_BAD)
      else xyzimage_open hst w (Some xyzpriv_fread_func) error)"

definition xyzimage_fwrite ::
  "host \<Rightarrow> XYZImage option \<Rightarrow> (FILE option) world \<Rightarrow> error_ptr \<Rightarrow>
   int \<times> XYZImage option \<times> (FILE option) world \<times> error_ptr" where
  "xyzimage_fwrite hst imgp w error0 =
     (let error = xyzpriv_set_error error0 XYZIMAGE_ERROR_OK in
      if \<not> xyzimage_is_valid imgp
      then (0, imgp, w, xyzpriv_set_error error XYZIMAGE_ERROR_XYZIMAGE_INVALID)
      else if userdata w = None
      then (0, imgp, w, xyzpriv_set_error error XYZIMAGE_ERROR_POINTER_BAD)
      else xyzimage_write hst imgp w (Some xyzpriv_fwrite_func) error)"

subsection \<open>Reading a trace\<close>

text \<open>The output capacities of the calls of the compression function, in order.\<close>

fun compress_calls :: "event list \<Rightarrow> nat list" where
  "compress_calls [] = []"
| "compress_calls (Compress n # evs) = n # compress_calls evs"
| "compress_calls (ev # evs) = compress_calls evs"

subsection \<open>The invariant of a live handle\<close>

text \<open>
  The spec's invariant, in its words: the palette has 256 entries (768 bytes) and the pixel
  buffer has \<open>width * height\<close> bytes, which is also what \<open>data_len\<close> records.
\<close>

definition handle_inv :: "XYZImage \<Rightarrow> bool" where
  "handle_inv img \<longleftrightarrow>
     length (palette img) = 256 \<and>
     data_len img = unat (width img) * unat (height img) \<and>
     (case data img of None \<Rightarrow> False | Some d \<Rightarrow> length d = unat (width img) * unat (height img))"

text \<open>Width, height and the length of the pixel buffer are the same in two handles.\<close>

definition same_shape :: "XYZImage \<Rightarrow> XYZImage \<Rightarrow> bool" where
  "same_shape img img' \<longleftrightarrow>
     width img' = width img \<and> height img' = height img \<and> data_len img' = data_len img \<and>
     map_option length (data img') = map_option length (data img)"

subsection \<open>Two hosts to run the library on\<close>

text \<open>
  A codec that stores: the compressed form of a buffer is a marker byte followed by the buffer.
  It stands in for zlib where the model is run on concrete images: it respects the capacity of
  the destination (return code \<open>Z_BUF_ERROR = -5\<close> otherwise), rejects a stream without the
  marker (\<open>Z_DATA_ERROR = -3\<close>), and inflating undoes deflating.
\<close>

definition stored_compressBound :: "nat \<Rightarrow> nat" where
  "stored_compressBound n = n + 13"

definition stored_compress2 :: "byte list \<Rightarrow> nat \<Rightarrow> int \<Rightarrow> int \<times> byte list" where
  "stored_compress2 src cap level =
     (if cap < length src + 1 then (- 5, []) else (0, 0x78 # src))"

definition stored_uncompress :: "byte list \<Rightarrow> nat \<Rightarrow> int \<times> byte list" where
  "stored_uncompress src cap =
     (case src of
        [] \<Rightarrow> (- 3, [])
      | b # rest \<Rightarrow>
          if b \<noteq> 0x78 then (- 3, [])
          else if cap < length rest then (- 5, [])
          else (0, rest))"

definition little_host :: host where
  "little_host = \<lparr>
     is_big = False,
     malloc_ok = (\<lambda>site n. True),
     junk = (\<lambda>i. 0),
     compressBound = stored_compressBound,
     compress2 = stored_compress2,
     uncompress = stored_uncompress \<rparr>"

definition big_host :: host where
  "big_host = little_host\<lparr>is_big := True\<rparr>"

text \<open>An empty stream to write to, and a stream that holds \<open>bs\<close> and is read from its start.\<close>

definition empty_file :: "(FILE option) world" where
  "empty_file = \<lparr>userdata = Some \<lparr>file_bytes = [], file_pos = 0, file_eof = False\<rparr>, trace = []\<rparr>"

definition file_of :: "byte list \<Rightarrow> (FILE option) world" where
  "file_of bs = \<lparr>userdata = Some \<lparr>file_bytes = bs, file_pos = 0, file_eof = False\<rparr>, trace = []\<rparr>"

text \<open>
  The image of the spec's concrete scenario: 2 by 2 pixels, every pixel the index 5, and
  palette entry 5 the colour (10, 20, 30), as \<open>xyzimage_alloc\<close> on the little-endian host
  and stores through the buffer and palette pointers leave it.
\<close>

definition example_image :: XYZImage where
  "example_image = (the (xyzpriv_alloc little_host))\<lparr>
     width := 2, height := 2,
     palette := (replicate 256 \<lparr>red = 0, green = 0, blue = 0\<rparr>)
                  [5 := \<lparr>red = 10, green = 20, blue = 30\<rparr>],
     data_len := 4,
     data := Some [5, 5, 5, 5] \<rparr>"

text \<open>
  The little-endian host at a moment when the output buffer of \<open>xyzimage_write\<close> cannot be
  grown: every allocation succeeds but the \<open>realloc\<close> to twice the nominal size.
\<close>

definition realloc_fails_host :: host where
  "realloc_fails_host = little_host\<lparr>malloc_ok := (\<lambda>site n. site \<noteq> Write_realloc)\<rparr>"

section \<open>Basic facts\<close>

lemma set_error_idem [simp]:
  "xyzpriv_set_error (xyzpriv_set_error error a) b = xyzpriv_set_error error b"
  by (simp add: xyzpriv_set_error_def split: option.splits)

lemma valid_alloc: "xyzimage_is_valid (xyzpriv_alloc hst)"
  by (simp add: xyzimage_is_valid_def xyzpriv_alloc_def XYZPRIV_CURRENT_STRUCT_VERSION_def)

lemma free_invalidates: "\<not> xyzimage_is_valid (snd (xyzimage_free q))"
proof (cases "xyzimage_is_valid q")
  case False
  then show ?thesis by (simp add: xyzimage_free_def)
next
  case True
  then obtain img where q: "q = Some img" and h: "header img = struct_magic"
    by (cases q) (auto simp: xyzimage_is_valid_def split: if_splits)
  have "(header img)[0 := 0x21] \<noteq> struct_magic"
    by (simp add: h struct_magic_def)
  with True q show ?thesis
    by (simp add: xyzimage_free_def xyzimage_is_valid_def)
qed

section \<open>The compression function of a handle\<close>

text \<open>
  C10. On a valid handle, \<open>xyzimage_set_compress_func\<close> with a null function pointer stores the
  built-in \<open>xyzpriv_compress_func\<close> in the handle and with a function \<open>f\<close> it stores \<open>f\<close>; no other
  field changes. On an invalid handle it changes nothing.
\<close>

theorem set_compress_func_spec:
  "(xyzimage_is_valid imgp \<longrightarrow>
      xyzimage_set_compress_func hst imgp None
        = Some ((the imgp)\<lparr>compress_func := xyzpriv_compress_func hst\<rparr>) \<and>
      xyzimage_set_compress_func hst imgp (Some f) = Some ((the imgp)\<lparr>compress_func := f\<rparr>)) \<and>
   (\<not> xyzimage_is_valid imgp \<longrightarrow> xyzimage_set_compress_func hst imgp cf = imgp)"
  by (cases imgp) (simp_all add: xyzimage_set_compress_func_def xyzimage_is_valid_def)

theorem set_compress_func_spec_witness:
  "xyzimage_is_valid (xyzpriv_alloc little_host) \<and>
   xyzimage_set_compress_func little_host (xyzpriv_alloc little_host) None
     = Some ((the (xyzpriv_alloc little_host))\<lparr>compress_func := xyzpriv_compress_func little_host\<rparr>) \<and>
   xyzimage_set_compress_func little_host (xyzpriv_alloc little_host) (Some (\<lambda>b n. (b, None)))
     = Some ((the (xyzpriv_alloc little_host))\<lparr>compress_func := (\<lambda>b n. (b, None))\<rparr>) \<and>
   \<not> xyzimage_is_valid None \<and>
   xyzimage_set_compress_func little_host None (Some (\<lambda>b n. (b, None))) = None"
  using set_compress_func_spec [of "xyzpriv_alloc little_host" little_host "\<lambda>b n. (b, None)"]
    set_compress_func_spec [of None little_host _ "Some (\<lambda>b n. (b, None))"]
    valid_alloc [of little_host]
  by (simp add: xyzimage_is_valid_def)

section \<open>Accessors on a handle that is not valid\<close>

text \<open>
  C7. A handle pointer that is null, or points to memory without the marker \<open>LXYZ\<close> and
  version 1, or was released by \<open>xyzimage_free\<close> (which overwrites the first marker byte before
  it frees), fails \<open>xyzimage_is_valid\<close>, and every read-only accessor then returns its neutral
  value: 0 for width, height, file size and compressed file size, the null pointer for buffer
  and palette, \<open>XYZIMAGE_FORMAT_NONE\<close> for the format. The results are these constants, so no
  field of the handle beyond marker and version enters them; no accessor returns a changed
  handle, and \<open>xyzimage_get_buffer\<close> leaves \<open>*len\<close> as it was.
\<close>

theorem invalid_handle_accessors:
  assumes "imgp = None
           \<or> (\<exists>img. imgp = Some img \<and> (header img \<noteq> struct_magic \<or> version img \<noteq> 1))
           \<or> (\<exists>q. imgp = snd (xyzimage_free q))"
  shows "\<not> xyzimage_is_valid imgp \<and>
     xyzimage_get_width imgp = 0 \<and> xyzimage_get_height imgp = 0 \<and>
     xyzimage_get_buffer imgp len = (None, len) \<and>
     xyzimage_get_palette imgp error
       = (None, xyzpriv_set_error error XYZIMAGE_ERROR_XYZIMAGE_INVALID) \<and>
     xyzimage_get_format imgp = XYZIMAGE_FORMAT_NONE \<and>
     xyzimage_get_filesize imgp = 0 \<and> xyzimage_get_compressed_filesize imgp = 0"
proof -
  from assms consider "imgp = None"
    | img where "imgp = Some img" "header img \<noteq> struct_magic \<or> version img \<noteq> 1"
    | q where "imgp = snd (xyzimage_free q)"
    by blast
  then have inv: "\<not> xyzimage_is_valid imgp"
  proof cases
    case 1 then show ?thesis by (simp add: xyzimage_is_valid_def)
  next
    case 2 then show ?thesis by (auto simp: xyzimage_is_valid_def)
  next
    case 3 then show ?thesis by (simp add: free_invalidates)
  qed
  then show ?thesis
    by (simp add: xyzimage_get_width_def xyzimage_get_height_def xyzimage_get_buffer_def
        xyzimage_get_palette_def xyzimage_get_format_def xyzimage_get_filesize_def
        xyzimage_get_compressed_filesize_def)
qed

theorem invalid_handle_accessors_witness:
  "fst (xyzimage_free (xyzpriv_alloc little_host)) = 1 \<and>
   \<not> xyzimage_is_valid (snd (xyzimage_free (xyzpriv_alloc little_host))) \<and>
   xyzimage_get_width (snd (xyzimage_free (xyzpriv_alloc little_host))) = 0 \<and>
   xyzimage_get_height (snd (xyzimage_free (xyzpriv_alloc little_host))) = 0 \<and>
   xyzimage_get_buffer (snd (xyzimage_free (xyzpriv_alloc little_host))) (Some 7) = (None, Some 7) \<and>
   xyzimage_get_palette (snd (xyzimage_free (xyzpriv_alloc little_host))) (Some XYZIMAGE_ERROR_OK)
     = (None, Some XYZIMAGE_ERROR_XYZIMAGE_INVALID) \<and>
   xyzimage_get_format (snd (xyzimage_free (xyzpriv_alloc little_host))) = XYZIMAGE_FORMAT_NONE \<and>
   xyzimage_get_filesize (snd (xyzimage_free (xyzpriv_alloc little_host))) = 0 \<and>
   xyzimage_get_compressed_filesize (snd (xyzimage_free (xyzpriv_alloc little_host))) = 0"
proof -
  have "\<exists>q. snd (xyzimage_free (xyzpriv_alloc little_host)) = snd (xyzimage_free q)"
    by blast
  then show ?thesis
    using invalid_handle_accessors [of "snd (xyzimage_free (xyzpriv_alloc little_host))"
        "Some 7" "Some XYZIMAGE_ERROR_OK"] valid_alloc [of little_host]
    by (simp add: xyzimage_free_def xyzpriv_set_error_def)
qed

section \<open>Sizes\<close>

lemma unat16_le: "unat (w :: 16 word) \<le> 65535"
  using unsigned_less [of w, where ?'a = nat] by simp

lemma unat_ucast_16_32: "unat (ucast (w :: 16 word) :: 32 word) = unat w"
  using unat16_le [of w] by (simp add: unsigned_ucast_eq take_bit_nat_eq_self)

lemma mul16_bound: "unat (w :: 16 word) * unat (h :: 16 word) \<le> 4294836225"
  using mult_le_mono [OF unat16_le [of w] unat16_le [of h]] by simp

lemma unat_mul_16:
  "unat ((ucast (w :: 16 word) :: 32 word) * ucast (h :: 16 word)) = unat w * unat h"
  using mul16_bound [of w h] by (simp add: unat_word_ariths unat_ucast_16_32)

text \<open>The 32-bit sum does not wrap: the nominal size is \<open>768 + width * height\<close>.\<close>

lemma xyz_size_eq: "xyz_size w h = 768 + unat w * unat h"
proof -
  have "unat ((768 :: 32 word) + ucast w * ucast h) = (768 + unat w * unat h) mod 2 ^ 32"
    by (simp add: unat_word_ariths(1) unat_mul_16)
  also have "\<dots> = 768 + unat w * unat h"
    using mul16_bound [of w h] by simp
  finally show ?thesis
    by (simp add: xyz_size_def XYZIMAGE_PALETTE_SIZE_def XYZIMAGE_PALETTE_ENTRIES_def)
qed

lemma xyz_size_bound: "xyz_size w h * 2 < 2 ^ 33"
  using mul16_bound [of w h] by (simp add: xyz_size_eq mult.commute)

section \<open>The header of a stream\<close>

text \<open>
  C3. When the first call of the read function delivers 4 bytes and reports no error that the
  caller can see (the test \<open>res != 4 || (error && *error != 0)\<close> passes), and the 4 bytes are
  not \<open>XYZ1\<close>, then \<open>xyzimage_open\<close> returns the null pointer after this one read and stores
  \<open>XYZIMAGE_ERROR_IO_READ_BAD_HEADER\<close> through \<open>error\<close> (when \<open>error\<close> is not null).
\<close>

theorem open_bad_magic:
  assumes "rfn (userdata w) 4 = (u, hdr, r)" and "length hdr = 4"
    and "\<not> error_is_set (callback_error (xyzpriv_set_error error XYZIMAGE_ERROR_OK) r)"
    and "hdr \<noteq> xyz_magic"
  shows "xyzimage_open hst w (Some rfn) error =
     (None, \<lparr>userdata = u, trace = trace w @ [Read 4]\<rparr>,
      xyzpriv_set_error error XYZIMAGE_ERROR_IO_READ_BAD_HEADER)"
  using assms
  by (simp add: xyzimage_open_def call_read_def callback_error_def split: option.splits)

theorem open_bad_magic_witness:
  "xyzimage_open little_host (file_of [0x58, 0x59, 0x5A, 0x32, 1, 0, 1, 0, 0x78])
     (Some xyzpriv_fread_func) (Some XYZIMAGE_ERROR_IO_WRITE) =
     (None,
      \<lparr>userdata = Some \<lparr>file_bytes = [0x58, 0x59, 0x5A, 0x32, 1, 0, 1, 0, 0x78],
                          file_pos = 4, file_eof = False\<rparr>,
       trace = [Read 4]\<rparr>,
      Some XYZIMAGE_ERROR_IO_READ_BAD_HEADER)"
proof -
  let ?bs = "[0x58, 0x59, 0x5A, 0x32, 1, 0, 1, 0, 0x78] :: byte list"
  have rd: "xyzpriv_fread_func (userdata (file_of ?bs)) 4 =
      (Some \<lparr>file_bytes = ?bs, file_pos = 4, file_eof = False\<rparr>, [0x58, 0x59, 0x5A, 0x32], None)"
    by (simp add: xyzpriv_fread_func_def fread_def file_of_def)
  have ne: "[0x58, 0x59, 0x5A, 0x32] \<noteq> xyz_magic"
    by (simp add: xyz_magic_def)
  have quiet: "\<not> error_is_set
      (callback_error (xyzpriv_set_error (Some XYZIMAGE_ERROR_IO_WRITE) XYZIMAGE_ERROR_OK) None)"
    by (simp add: error_is_set_def callback_error_def xyzpriv_set_error_def)
  show ?thesis
    using open_bad_magic [where rfn = xyzpriv_fread_func and w = "file_of ?bs"
        and hst = little_host and error = "Some XYZIMAGE_ERROR_IO_WRITE"
        and hdr = "[0x58, 0x59, 0x5A, 0x32]" and r = None, OF rd _ quiet ne]
    by (simp add: file_of_def xyzpriv_set_error_def)
qed

section \<open>The default compression function\<close>

text \<open>
  C6. \<open>xyzpriv_compress_func\<close> takes \<open>compressBound\<close> of the input length as the size of the
  compressed output before it compresses. When that bound exceeds the capacity \<open>len_out\<close> it
  returns 0 with \<open>XYZIMAGE_ERROR_BUFFER_TOO_SMALL\<close> and writes nothing to the output buffer.
  It writes to the output buffer only when the bound is within the capacity, and then what
  it writes is the whole output of \<open>compress2\<close>; as \<open>compress2\<close> keeps within the destination
  size it is given (the bound), the bytes written fit the capacity.
\<close>

theorem compress_func_capacity:
  "(compressBound hst (length buffer_in) > len_out \<longrightarrow>
      xyzpriv_compress_func hst buffer_in len_out = ([], Some XYZIMAGE_ERROR_BUFFER_TOO_SMALL)) \<and>
   (fst (xyzpriv_compress_func hst buffer_in len_out) \<noteq> [] \<longrightarrow>
      compressBound hst (length buffer_in) \<le> len_out \<and>
      fst (xyzpriv_compress_func hst buffer_in len_out)
        = snd (compress2 hst buffer_in (compressBound hst (length buffer_in)) Z_BEST_COMPRESSION)) \<and>
   (length (snd (compress2 hst buffer_in (compressBound hst (length buffer_in)) Z_BEST_COMPRESSION))
      \<le> compressBound hst (length buffer_in) \<longrightarrow>
      length (fst (xyzpriv_compress_func hst buffer_in len_out)) \<le> len_out)"
  by (auto simp: xyzpriv_compress_func_def Let_def split: prod.splits if_splits)

theorem compress_func_capacity_witness:
  "compressBound little_host (length [1, 2, 3 :: byte]) > 10 \<and>
   xyzpriv_compress_func little_host [1, 2, 3] 10 = ([], Some XYZIMAGE_ERROR_BUFFER_TOO_SMALL) \<and>
   fst (xyzpriv_compress_func little_host [1, 2, 3] 16) = [0x78, 1, 2, 3] \<and>
   compressBound little_host (length [1, 2, 3 :: byte]) \<le> 16 \<and>
   length (snd (compress2 little_host [1, 2, 3] (compressBound little_host (length [1, 2, 3 :: byte]))
                  Z_BEST_COMPRESSION)) \<le> compressBound little_host (length [1, 2, 3 :: byte]) \<and>
   length (fst (xyzpriv_compress_func little_host [1, 2, 3] 16)) \<le> 16"
  using compress_func_capacity [of 10 little_host "[1, 2, 3]"]
    compress_func_capacity [of 16 little_host "[1, 2, 3]"]
  by (simp add: little_host_def stored_compressBound_def stored_compress2_def
      xyzpriv_compress_func_def Z_OK_def)

section \<open>Reaching the payload\<close>

lemma callback_error_quiet:
  "\<not> error_is_set (callback_error (xyzpriv_set_error error XYZIMAGE_ERROR_OK) r) \<Longrightarrow>
   callback_error (xyzpriv_set_error error XYZIMAGE_ERROR_OK) r
     = xyzpriv_set_error error XYZIMAGE_ERROR_OK"
  by (cases error; cases r)
     (simp_all add: callback_error_def xyzpriv_set_error_def error_is_set_def)

lemma error_not_set_OK [simp]:
  "\<not> error_is_set (xyzpriv_set_error error XYZIMAGE_ERROR_OK)"
  by (cases error) (simp_all add: xyzpriv_set_error_def error_is_set_def)

text \<open>The handle that \<open>xyzimage_alloc\<close> builds for \<open>W\<close> times \<open>H\<close> pixels.\<close>

lemma xyzimage_alloc_ok:
  assumes "malloc_ok hst Alloc_data (unat W * unat H)"
  shows "xyzimage_alloc hst w W H XYZIMAGE_FORMAT_DEFAULT error =
     (Some ((the (xyzpriv_alloc hst))\<lparr>width := W, height := H, data_len := unat W * unat H,
              data := Some (replicate (unat W * unat H) 0)\<rparr>),
      w\<lparr>trace := trace w @ [Alloc Alloc_data (unat W * unat H)]\<rparr>,
      xyzpriv_set_error error XYZIMAGE_ERROR_OK)"
  using assms
  by (simp add: xyzimage_alloc_def xyzpriv_alloc_def xyzpriv_malloc_def unat_mul_16)

lemma open_reaches_payload:
  assumes "rfn (userdata w0) 4 = (u1, xyz_magic, r1)"
    and "\<not> error_is_set (callback_error (xyzpriv_set_error error XYZIMAGE_ERROR_OK) r1)"
    and "rfn u1 2 = (u2, wb, r2)" and "length wb = 2"
    and "\<not> error_is_set (callback_error (xyzpriv_set_error error XYZIMAGE_ERROR_OK) r2)"
    and "rfn u2 2 = (u3, hb, r3)" and "length hb = 2"
    and "\<not> error_is_set (callback_error (xyzpriv_set_error error XYZIMAGE_ERROR_OK) r3)"
    and "W = xyzpriv_swap_when_big hst (host_word16 hst wb)"
    and "H = xyzpriv_swap_when_big hst (host_word16 hst hb)"
    and "malloc_ok hst Alloc_data (unat W * unat H)"
  shows "xyzimage_open hst w0 (Some rfn) error =
     xyzimage_open_payload hst rfn
       ((the (xyzpriv_alloc hst))\<lparr>width := W, height := H, data_len := unat W * unat H,
              data := Some (replicate (unat W * unat H) 0)\<rparr>)
       \<lparr>userdata = u3,
        trace = trace w0 @ [Read 4, Read 2, Read 2, Alloc Alloc_data (unat W * unat H)]\<rparr>
       (xyzpriv_set_error error XYZIMAGE_ERROR_OK)"
proof -
  have m: "length xyz_magic = 4" by (simp add: xyz_magic_def)
  show ?thesis
    unfolding xyzimage_open_def
    using assms(1,3,4,6,7,11)
    by (simp add: call_read_def Let_def m callback_error_quiet [OF assms(2)]
        callback_error_quiet [OF assms(5)] callback_error_quiet [OF assms(8)]
        xyzimage_alloc_ok assms(9) [symmetric] assms(10) [symmetric])
qed

section \<open>The two example hosts\<close>

lemma little_host_simps [simp]:
  "is_big little_host = False"
  "malloc_ok little_host site n"
  "junk little_host i = 0"
  "compressBound little_host = stored_compressBound"
  "compress2 little_host = stored_compress2"
  "uncompress little_host = stored_uncompress"
  by (simp_all add: little_host_def)

lemma big_host_simps [simp]:
  "is_big big_host = True"
  "malloc_ok big_host site n"
  "junk big_host i = 0"
  "compressBound big_host = stored_compressBound"
  "compress2 big_host = stored_compress2"
  "uncompress big_host = stored_uncompress"
  by (simp_all add: big_host_def little_host_def)

section \<open>A stream that does not end\<close>

text \<open>
  C2. The header reads succeed and give the dimensions \<open>W\<close> and \<open>H\<close>, the allocations succeed,
  and \<open>nominal = 768 + W * H\<close>. When the read of \<open>nominal\<close> payload bytes leaves the local error
  variable at \<open>XYZIMAGE_ERROR_OK\<close> (no end of stream, no other error reported), and so does the
  follow-up read of \<open>nominal\<close> more bytes, \<open>xyzimage_open\<close> returns the null pointer and stores
  \<open>XYZIMAGE_ERROR_IO_READ_IMAGE_TOO_BIG\<close> through \<open>error\<close>. The calls it made are exactly the
  ones listed: the buffer for the compressed stream is allocated with \<open>nominal\<close> bytes, grown
  once to \<open>2 * nominal\<close>, and no allocation asks for more than that.
\<close>

theorem open_oversized_stream:
  assumes "rfn (userdata w0) 4 = (u1, xyz_magic, r1)"
    and "\<not> error_is_set (callback_error (xyzpriv_set_error error XYZIMAGE_ERROR_OK) r1)"
    and "rfn u1 2 = (u2, wb, r2)" and "length wb = 2"
    and "\<not> error_is_set (callback_error (xyzpriv_set_error error XYZIMAGE_ERROR_OK) r2)"
    and "rfn u2 2 = (u3, hb, r3)" and "length hb = 2"
    and "\<not> error_is_set (callback_error (xyzpriv_set_error error XYZIMAGE_ERROR_OK) r3)"
    and "W = xyzpriv_swap_when_big hst (host_word16 hst wb)"
    and "H = xyzpriv_swap_when_big hst (host_word16 hst hb)"
    and "nominal = 768 + unat W * unat H"
    and "malloc_ok hst Alloc_data (unat W * unat H)"
    and "malloc_ok hst Open_compressed nominal"
    and "malloc_ok hst Open_decompressed nominal"
    and "malloc_ok hst Open_realloc (nominal * 2)"
    and "rfn u3 nominal = (u4, buf1, r4)"
    and "callback_local XYZIMAGE_ERROR_OK r4 = XYZIMAGE_ERROR_OK"
    and "rfn u4 nominal = (u5, buf2, r5)"
    and "callback_local XYZIMAGE_ERROR_OK r5 = XYZIMAGE_ERROR_OK"
  shows "xyzimage_open hst w0 (Some rfn) error =
     (None,
      \<lparr>userdata = u5,
       trace = trace w0 @
         [Read 4, Read 2, Read 2, Alloc Alloc_data (unat W * unat H),
          Alloc Open_compressed nominal, Alloc Open_decompressed nominal, Read nominal,
          Alloc Open_realloc (nominal * 2), Read nominal]\<rparr>,
      xyzpriv_set_error error XYZIMAGE_ERROR_IO_READ_IMAGE_TOO_BIG) \<and>
     (\<forall>ev \<in> set [Read 4, Read 2, Read 2, Alloc Alloc_data (unat W * unat H),
          Alloc Open_compressed nominal, Alloc Open_decompressed nominal, Read nominal,
          Alloc Open_realloc (nominal * 2), Read nominal].
        \<forall>site m. ev = Alloc site m \<longrightarrow> m \<le> 2 * nominal)"
proof -
  have n: "xyz_size W H = nominal"
    by (simp add: xyz_size_eq assms(11))
  have rd: "xyzimage_open_read hst rfn nominal
        \<lparr>userdata = u3,
         trace = trace w0 @ [Read 4, Read 2, Read 2, Alloc Alloc_data (unat W * unat H),
           Alloc Open_compressed nominal, Alloc Open_decompressed nominal]\<rparr> =
      Inr (\<lparr>userdata = u5,
             trace = trace w0 @
               [Read 4, Read 2, Read 2, Alloc Alloc_data (unat W * unat H),
                Alloc Open_compressed nominal, Alloc Open_decompressed nominal, Read nominal,
                Alloc Open_realloc (nominal * 2), Read nominal]\<rparr>,
           XYZIMAGE_ERROR_OK, length buf1 + length buf2,
           buf_store (buf_store (fresh hst 0 nominal) 0 buf1 @ fresh hst nominal (nominal * 2))
             nominal buf2)"
    using assms(15,16,17,18,19)
    by (simp add: xyzimage_open_read_def call_read_def xyzpriv_malloc_def Let_def)
  have "xyzimage_open hst w0 (Some rfn) error =
     (None,
      \<lparr>userdata = u5,
       trace = trace w0 @
         [Read 4, Read 2, Read 2, Alloc Alloc_data (unat W * unat H),
          Alloc Open_compressed nominal, Alloc Open_decompressed nominal, Read nominal,
          Alloc Open_realloc (nominal * 2), Read nominal]\<rparr>,
      xyzpriv_set_error error XYZIMAGE_ERROR_IO_READ_IMAGE_TOO_BIG)"
    using assms(13,14)
    by (simp add: open_reaches_payload [OF assms(1-10) assms(12)] xyzimage_open_payload_def
        n xyzpriv_malloc_def rd)
  moreover have "unat W * unat H \<le> 2 * nominal"
    by (simp add: assms(11))
  ultimately show ?thesis
    by simp
qed

theorem open_oversized_stream_witness:
  "xyzimage_open little_host \<lparr>userdata = 0 :: nat, trace = []\<rparr>
     (Some (\<lambda>k n. (Suc k, if k = 0 then xyz_magic else replicate n 0, None)))
     (Some XYZIMAGE_ERROR_OK) =
     (None,
      \<lparr>userdata = 5,
       trace = [Read 4, Read 2, Read 2, Alloc Alloc_data 0,
          Alloc Open_compressed 768, Alloc Open_decompressed 768, Read 768,
          Alloc Open_realloc 1536, Read 768]\<rparr>,
      Some XYZIMAGE_ERROR_IO_READ_IMAGE_TOO_BIG)"
proof -
  let ?rfn = "\<lambda>(k :: nat) (n :: nat).
      (Suc k, if k = 0 then xyz_magic else (replicate n 0 :: byte list), None :: xyzimage_error_t option)"
  have q: "\<not> error_is_set
      (callback_error (xyzpriv_set_error (Some XYZIMAGE_ERROR_OK) XYZIMAGE_ERROR_OK) None)"
    by (simp add: error_is_set_def callback_error_def xyzpriv_set_error_def)
  have z: "xyzpriv_swap_when_big little_host (host_word16 little_host (replicate 2 0)) = 0"
    by (simp add: xyzpriv_swap_when_big_def host_word16_def numeral_2_eq_2)
  have "xyzimage_open little_host \<lparr>userdata = 0 :: nat, trace = []\<rparr> (Some ?rfn)
       (Some XYZIMAGE_ERROR_OK) =
     (None,
      \<lparr>userdata = 5,
       trace = trace \<lparr>userdata = 0 :: nat, trace = []\<rparr> @
         [Read 4, Read 2, Read 2, Alloc Alloc_data (unat (0 :: uint16_t) * unat (0 :: uint16_t)),
          Alloc Open_compressed 768, Alloc Open_decompressed 768, Read 768,
          Alloc Open_realloc (768 * 2), Read 768]\<rparr>,
      xyzpriv_set_error (Some XYZIMAGE_ERROR_OK) XYZIMAGE_ERROR_IO_READ_IMAGE_TOO_BIG) \<and>
     (\<forall>ev \<in> set [Read 4, Read 2, Read 2,
          Alloc Alloc_data (unat (0 :: uint16_t) * unat (0 :: uint16_t)),
          Alloc Open_compressed 768, Alloc Open_decompressed 768, Read 768,
          Alloc Open_realloc (768 * 2), Read 768].
        \<forall>site m. ev = Alloc site m \<longrightarrow> m \<le> 2 * 768)"
    by (rule open_oversized_stream [where ?u1.0 = 1 and ?u2.0 = 2 and ?u3.0 = 3 and ?u4.0 = 4
          and ?r1.0 = None and ?r2.0 = None and ?r3.0 = None and ?r4.0 = None and ?r5.0 = None
          and wb = "replicate 2 0" and hb = "replicate 2 0"
          and ?buf1.0 = "replicate 768 0" and ?buf2.0 = "replicate 768 0"])
       (simp_all add: q z callback_local_def)
  then show ?thesis
    by (simp add: xyzpriv_set_error_def)
qed

section \<open>A payload of the wrong size\<close>

text \<open>
  C4. The header reads succeed and give \<open>W\<close> and \<open>H\<close>, the allocations succeed, and the
  compressed stream is read to its end (\<open>res\<close> bytes in \<open>compressed_xyz\<close>). When \<open>uncompress\<close>
  returns \<open>Z_OK\<close> for it with the destination capacity \<open>nominal = 768 + W * H\<close> and the
  inflated length it reports is not \<open>nominal\<close>, \<open>xyzimage_open\<close> returns the null pointer and
  stores \<open>XYZIMAGE_ERROR_IO_READ_IMAGE_TOO_SMALL\<close> through \<open>error\<close>.
\<close>

theorem open_size_mismatch:
  assumes "rfn (userdata w0) 4 = (u1, xyz_magic, r1)"
    and "\<not> error_is_set (callback_error (xyzpriv_set_error error XYZIMAGE_ERROR_OK) r1)"
    and "rfn u1 2 = (u2, wb, r2)" and "length wb = 2"
    and "\<not> error_is_set (callback_error (xyzpriv_set_error error XYZIMAGE_ERROR_OK) r2)"
    and "rfn u2 2 = (u3, hb, r3)" and "length hb = 2"
    and "\<not> error_is_set (callback_error (xyzpriv_set_error error XYZIMAGE_ERROR_OK) r3)"
    and "W = xyzpriv_swap_when_big hst (host_word16 hst wb)"
    and "H = xyzpriv_swap_when_big hst (host_word16 hst hb)"
    and "nominal = 768 + unat W * unat H"
    and "malloc_ok hst Alloc_data (unat W * unat H)"
    and "malloc_ok hst Open_compressed nominal"
    and "malloc_ok hst Open_decompressed nominal"
    and "xyzimage_open_read hst rfn nominal
           \<lparr>userdata = u3,
            trace = trace w0 @ [Read 4, Read 2, Read 2, Alloc Alloc_data (unat W * unat H),
              Alloc Open_compressed nominal, Alloc Open_decompressed nominal]\<rparr>
         = Inr (w9, XYZIMAGE_ERROR_IO_READ_END_OF_FILE, res, compressed_xyz)"
    and "uncompress hst (take res compressed_xyz) nominal = (Z_OK, out)"
    and "length out \<noteq> nominal"
  shows "xyzimage_open hst w0 (Some rfn) error =
     (None, w9, xyzpriv_set_error error XYZIMAGE_ERROR_IO_READ_IMAGE_TOO_SMALL)"
proof -
  have n: "xyz_size W H = nominal"
    by (simp add: xyz_size_eq assms(11))
  show ?thesis
    using assms(13,14,16,17)
    by (simp add: open_reaches_payload [OF assms(1-10) assms(12)] xyzimage_open_payload_def
        n xyzpriv_malloc_def assms(15) xyzimage_open_inflate_def)
qed

lemma take_buf_store_0: "take (length bs) (buf_store buf 0 bs) = bs"
  by (simp add: buf_store_def)

theorem open_size_mismatch_witness:
  "fst (xyzimage_open little_host (file_of (xyz_magic @ [0, 0, 0, 0] @ [0x78, 1, 2, 3]))
          (Some xyzpriv_fread_func) (Some XYZIMAGE_ERROR_OK)) = None \<and>
   snd (snd (xyzimage_open little_host (file_of (xyz_magic @ [0, 0, 0, 0] @ [0x78, 1, 2, 3]))
          (Some xyzpriv_fread_func) (Some XYZIMAGE_ERROR_OK)))
     = Some XYZIMAGE_ERROR_IO_READ_IMAGE_TOO_SMALL"
proof -
  let ?bs = "xyz_magic @ [0, 0, 0, 0] @ [0x78, 1, 2, 3]"
  let ?f = "\<lambda>p e. Some \<lparr>file_bytes = ?bs, file_pos = p, file_eof = e\<rparr>"
  let ?w6 = "\<lparr>userdata = ?f 8 False,
      trace = trace (file_of ?bs) @ [Read 4, Read 2, Read 2,
        Alloc Alloc_data (unat (0 :: uint16_t) * unat (0 :: uint16_t)),
        Alloc Open_compressed 768, Alloc Open_decompressed 768]\<rparr>"
  let ?w9 = "\<lparr>userdata = ?f 12 True, trace = trace ?w6 @ [Read 768]\<rparr>"
  have q: "\<not> error_is_set
      (callback_error (xyzpriv_set_error (Some XYZIMAGE_ERROR_OK) XYZIMAGE_ERROR_OK) None)"
    by (simp add: error_is_set_def callback_error_def xyzpriv_set_error_def)
  have z: "xyzpriv_swap_when_big little_host (host_word16 little_host [0, 0]) = 0"
    by (simp add: xyzpriv_swap_when_big_def host_word16_def)
  have r1: "xyzpriv_fread_func (userdata (file_of ?bs)) 4 = (?f 4 False, xyz_magic, None)"
    by (simp add: xyzpriv_fread_func_def fread_def file_of_def xyz_magic_def)
  have r2: "xyzpriv_fread_func (?f 4 False) 2 = (?f 6 False, [0, 0], None)"
    by (simp add: xyzpriv_fread_func_def fread_def xyz_magic_def)
  have r3: "xyzpriv_fread_func (?f 6 False) 2 = (?f 8 False, [0, 0], None)"
    by (simp add: xyzpriv_fread_func_def fread_def xyz_magic_def)
  have rd: "xyzimage_open_read little_host xyzpriv_fread_func 768 ?w6 =
      Inr (?w9, XYZIMAGE_ERROR_IO_READ_END_OF_FILE, length [0x78, 1, 2, 3 :: byte],
           buf_store (fresh little_host 0 768) 0 [0x78, 1, 2, 3])"
    by (simp add: xyzimage_open_read_def call_read_def xyzpriv_fread_func_def fread_def feof_def
        xyz_magic_def callback_local_def Let_def)
  have un: "uncompress little_host
      (take (length [0x78, 1, 2, 3 :: byte]) (buf_store (fresh little_host 0 768) 0 [0x78, 1, 2, 3]))
      768 = (Z_OK, [1, 2, 3])"
    unfolding take_buf_store_0 by (simp add: stored_uncompress_def Z_OK_def)
  have "xyzimage_open little_host (file_of ?bs) (Some xyzpriv_fread_func) (Some XYZIMAGE_ERROR_OK)
      = (None, ?w9,
         xyzpriv_set_error (Some XYZIMAGE_ERROR_OK) XYZIMAGE_ERROR_IO_READ_IMAGE_TOO_SMALL)"
    by (rule open_size_mismatch [OF r1 q r2 _ q r3 _ q z [symmetric] z [symmetric] _ _ _ _ rd un])
       simp_all
  then show ?thesis
    by (simp add: xyzpriv_set_error_def)
qed

section \<open>Compression with one retry\<close>

lemma compress_calls_append [simp]:
  "compress_calls (xs @ ys) = compress_calls xs @ compress_calls ys"
  by (induction xs rule: compress_calls.induct) simp_all

lemma write_stream_compress_calls:
  assumes "xyzimage_write_stream hst wfn img compressed w error = (ret, imgp', w', error')"
  shows "compress_calls (trace w') = compress_calls (trace w)"
  using assms
  by (auto simp: xyzimage_write_stream_def call_write_def Let_def
      split: prod.splits if_splits)

lemma write_stream_fails:
  assumes "compressed = [] \<or> error_is_set error"
  shows "xyzimage_write_stream hst wfn img compressed w error = (0, Some img, w, error)"
  using assms by (auto simp: xyzimage_write_stream_def)

text \<open>
  C5. The handle is valid with the default pixel format, a write function is given and the
  two intermediate buffers are allocated; \<open>nominal = 768 + width * height\<close>. Then
  \<open>xyzimage_write\<close> calls the handle's compression function with output capacity \<open>nominal\<close>.
  If that call stores \<open>XYZIMAGE_ERROR_BUFFER_TOO_SMALL\<close> (and the output buffer can be grown),
  it calls the function once more with capacity \<open>2 * nominal\<close>; otherwise it does not call it
  again: the capacities of the calls are \<open>[nominal, 2 * nominal]\<close> in the first case and
  \<open>[nominal]\<close> in the second, whatever happens afterwards. When the call that decides
  (the second in the first case, the first in the second) returns 0 or leaves an error that
  the caller can see, the write returns 0, the error variable holds what the compression
  function reported, the trace ends with that call (the write function is never called), and
  the handle and the state behind \<open>userdata\<close> are unchanged.
\<close>

theorem write_compress_retry:
  assumes "xyzimage_is_valid (Some img)" and "format img = XYZIMAGE_FORMAT_DEFAULT"
    and "nominal = 768 + unat (width img) * unat (height img)"
    and "malloc_ok hst Write_decompressed nominal"
    and "malloc_ok hst Write_compressed nominal"
    and "compress_func img (xyzimage_write_fill hst img) nominal = (out1, r1)"
    and "e = callback_local XYZIMAGE_ERROR_OK r1"
    and "e = XYZIMAGE_ERROR_BUFFER_TOO_SMALL \<longrightarrow> malloc_ok hst Write_realloc (nominal * 2)"
    and "compress_func img (xyzimage_write_fill hst img) (nominal * 2) = (out2, r2)"
    and "xyzimage_write hst (Some img) w0 (Some wfn) error = (ret, imgp', w', error')"
  shows "compress_calls (trace w') = compress_calls (trace w0) @
           (if e = XYZIMAGE_ERROR_BUFFER_TOO_SMALL then [nominal, nominal * 2] else [nominal]) \<and>
     (e = XYZIMAGE_ERROR_BUFFER_TOO_SMALL \<and>
         (out2 = [] \<or> error_is_set (callback_error (xyzpriv_set_error error XYZIMAGE_ERROR_OK) r2))
         \<longrightarrow> ret = 0 \<and> imgp' = Some img \<and>
             error' = callback_error (xyzpriv_set_error error XYZIMAGE_ERROR_OK) r2 \<and>
             w' = w0\<lparr>trace := trace w0 @
                    [Alloc Write_decompressed nominal, Alloc Write_compressed nominal,
                     Compress nominal, Alloc Write_realloc (nominal * 2),
                     Compress (nominal * 2)]\<rparr>) \<and>
     (e \<noteq> XYZIMAGE_ERROR_BUFFER_TOO_SMALL \<and>
         (out1 = [] \<or> error_is_set (xyzpriv_set_error error e))
         \<longrightarrow> ret = 0 \<and> imgp' = Some img \<and> error' = xyzpriv_set_error error e \<and>
             w' = w0\<lparr>trace := trace w0 @
                    [Alloc Write_decompressed nominal, Alloc Write_compressed nominal,
                     Compress nominal]\<rparr>)"
proof -
  have n: "xyz_size (width img) (height img) = nominal"
    by (simp add: xyz_size_eq assms(3))
  let ?w3 = "w0\<lparr>trace := trace w0 @
      [Alloc Write_decompressed nominal, Alloc Write_compressed nominal, Compress nominal]\<rparr>"
  let ?w5 = "w0\<lparr>trace := trace w0 @
      [Alloc Write_decompressed nominal, Alloc Write_compressed nominal, Compress nominal,
       Alloc Write_realloc (nominal * 2), Compress (nominal * 2)]\<rparr>"
  have run: "xyzimage_write hst (Some img) w0 (Some wfn) error =
      (if e = XYZIMAGE_ERROR_BUFFER_TOO_SMALL
       then xyzimage_write_stream hst wfn img out2 ?w5
              (callback_error (xyzpriv_set_error error XYZIMAGE_ERROR_OK) r2)
       else xyzimage_write_stream hst wfn img out1 ?w3 (xyzpriv_set_error error e))"
    using assms(1,2,4,5,6,8,9) assms(7) [symmetric]
    by (simp add: xyzimage_write_def n xyzpriv_malloc_def call_compress_def Let_def)
  have calls: "compress_calls (trace w') = compress_calls (trace w0) @
           (if e = XYZIMAGE_ERROR_BUFFER_TOO_SMALL then [nominal, nominal * 2] else [nominal])"
  proof (cases "e = XYZIMAGE_ERROR_BUFFER_TOO_SMALL")
    case True
    with run assms(10) have "xyzimage_write_stream hst wfn img out2 ?w5
        (callback_error (xyzpriv_set_error error XYZIMAGE_ERROR_OK) r2) = (ret, imgp', w', error')"
      by simp
    from write_stream_compress_calls [OF this] True show ?thesis by simp
  next
    case False
    with run assms(10) have "xyzimage_write_stream hst wfn img out1 ?w3
        (xyzpriv_set_error error e) = (ret, imgp', w', error')"
      by simp
    from write_stream_compress_calls [OF this] False show ?thesis by simp
  qed
  have retry_fails: "e = XYZIMAGE_ERROR_BUFFER_TOO_SMALL \<and>
         (out2 = [] \<or> error_is_set (callback_error (xyzpriv_set_error error XYZIMAGE_ERROR_OK) r2))
         \<longrightarrow> ret = 0 \<and> imgp' = Some img \<and>
             error' = callback_error (xyzpriv_set_error error XYZIMAGE_ERROR_OK) r2 \<and>
             w' = ?w5"
    using run assms(10) by (auto simp: write_stream_fails)
  have first_fails: "e \<noteq> XYZIMAGE_ERROR_BUFFER_TOO_SMALL \<and>
         (out1 = [] \<or> error_is_set (xyzpriv_set_error error e))
         \<longrightarrow> ret = 0 \<and> imgp' = Some img \<and> error' = xyzpriv_set_error error e \<and> w' = ?w3"
    using run assms(10) by (auto simp: write_stream_fails)
  from calls retry_fails first_fails show ?thesis
    by blast
qed

theorem write_compress_retry_witness:
  "xyzimage_write little_host
     (Some ((the (xyzpriv_alloc little_host))
        \<lparr>compress_func := (\<lambda>b n. ([], Some XYZIMAGE_ERROR_BUFFER_TOO_SMALL))\<rparr>))
     empty_file (Some xyzpriv_fwrite_func) (Some XYZIMAGE_ERROR_OK) =
   (0,
    Some ((the (xyzpriv_alloc little_host))
        \<lparr>compress_func := (\<lambda>b n. ([], Some XYZIMAGE_ERROR_BUFFER_TOO_SMALL))\<rparr>),
    empty_file\<lparr>trace := [Alloc Write_decompressed 768, Alloc Write_compressed 768,
       Compress 768, Alloc Write_realloc 1536, Compress 1536]\<rparr>,
    Some XYZIMAGE_ERROR_BUFFER_TOO_SMALL) \<and>
   xyzimage_write little_host
     (Some ((the (xyzpriv_alloc little_host))
        \<lparr>compress_func := (\<lambda>b n. ([], Some XYZIMAGE_ERROR_IO_COMPRESS))\<rparr>))
     empty_file (Some xyzpriv_fwrite_func) (Some XYZIMAGE_ERROR_OK) =
   (0,
    Some ((the (xyzpriv_alloc little_host))
        \<lparr>compress_func := (\<lambda>b n. ([], Some XYZIMAGE_ERROR_IO_COMPRESS))\<rparr>),
    empty_file\<lparr>trace := [Alloc Write_decompressed 768, Alloc Write_compressed 768,
       Compress 768]\<rparr>,
    Some XYZIMAGE_ERROR_IO_COMPRESS)"
proof -
  let ?bts = "(\<lambda>b n. ([], Some XYZIMAGE_ERROR_BUFFER_TOO_SMALL)) :: xyzimage_compress_func_t"
  let ?ioc = "(\<lambda>b n. ([], Some XYZIMAGE_ERROR_IO_COMPRESS)) :: xyzimage_compress_func_t"
  let ?a = "(the (xyzpriv_alloc little_host))\<lparr>compress_func := ?bts\<rparr>"
  let ?b = "(the (xyzpriv_alloc little_host))\<lparr>compress_func := ?ioc\<rparr>"
  have va: "xyzimage_is_valid (Some ?a)" and vb: "xyzimage_is_valid (Some ?b)"
    by (simp_all add: xyzimage_is_valid_def xyzpriv_alloc_def XYZPRIV_CURRENT_STRUCT_VERSION_def)
  have t0: "trace empty_file = []"
    by (simp add: empty_file_def)
  obtain ra ia wa ea where a: "xyzimage_write little_host (Some ?a) empty_file
      (Some xyzpriv_fwrite_func) (Some XYZIMAGE_ERROR_OK) = (ra, ia, wa, ea)"
    by (rule prod_cases4)
  obtain rb ib wb eb where b: "xyzimage_write little_host (Some ?b) empty_file
      (Some xyzpriv_fwrite_func) (Some XYZIMAGE_ERROR_OK) = (rb, ib, wb, eb)"
    by (rule prod_cases4)
  have "ra = 0 \<and> ia = Some ?a \<and> ea = Some XYZIMAGE_ERROR_BUFFER_TOO_SMALL \<and>
      wa = empty_file\<lparr>trace := [Alloc Write_decompressed 768, Alloc Write_compressed 768,
       Compress 768, Alloc Write_realloc 1536, Compress 1536]\<rparr>"
    using write_compress_retry [OF va _ _ _ _ _ _ _ _ a, where nominal = 768
        and ?out1.0 = "[]" and ?r1.0 = "Some XYZIMAGE_ERROR_BUFFER_TOO_SMALL"
        and ?out2.0 = "[]" and ?r2.0 = "Some XYZIMAGE_ERROR_BUFFER_TOO_SMALL"
        and e = XYZIMAGE_ERROR_BUFFER_TOO_SMALL]
    by (simp add: xyzpriv_alloc_def callback_local_def callback_error_def xyzpriv_set_error_def t0)
  moreover have "rb = 0 \<and> ib = Some ?b \<and> eb = Some XYZIMAGE_ERROR_IO_COMPRESS \<and>
      wb = empty_file\<lparr>trace := [Alloc Write_decompressed 768, Alloc Write_compressed 768,
       Compress 768]\<rparr>"
    using write_compress_retry [OF vb _ _ _ _ _ _ _ _ b, where nominal = 768
        and ?out1.0 = "[]" and ?r1.0 = "Some XYZIMAGE_ERROR_IO_COMPRESS"
        and ?out2.0 = "[]" and ?r2.0 = "Some XYZIMAGE_ERROR_IO_COMPRESS"
        and e = XYZIMAGE_ERROR_IO_COMPRESS]
    by (simp add: xyzpriv_alloc_def callback_local_def callback_error_def xyzpriv_set_error_def t0)
  ultimately show ?thesis
    by (simp add: a b)
qed

section \<open>The invariant\<close>

lemma xyzimage_alloc_Some:
  assumes "xyzimage_alloc hst w W H fmt error = (Some img, w', error')"
  shows "img = (the (xyzpriv_alloc hst))\<lparr>width := W, height := H, data_len := unat W * unat H,
              data := Some (replicate (unat W * unat H) 0)\<rparr>"
  using assms
  by (auto simp: xyzimage_alloc_def xyzpriv_alloc_def xyzpriv_malloc_def unat_mul_16 Let_def
      split: XYZImage_Format.splits if_splits)

lemma alloc_handle_ok:
  assumes "img = (the (xyzpriv_alloc hst))\<lparr>width := W, height := H, data_len := unat W * unat H,
              data := Some (replicate (unat W * unat H) 0)\<rparr>"
  shows "xyzimage_is_valid (Some img)" and "handle_inv img" and "width img = W" and "height img = H"
    and "format img = XYZIMAGE_FORMAT_DEFAULT"
  using assms
  by (simp_all add: xyzimage_is_valid_def handle_inv_def xyzpriv_alloc_def
      XYZPRIV_CURRENT_STRUCT_VERSION_def XYZIMAGE_PALETTE_ENTRIES_def)

lemma length_fresh [simp]: "length (fresh hst a b) = b - a"
  by (simp add: fresh_def)

lemma buf_store_all [simp]: "length bs = length buf \<Longrightarrow> buf_store buf 0 bs = bs"
  by (simp add: buf_store_def)

lemma length_palette_of_bytes [simp]: "length (palette_of_bytes d) = 256"
  by (simp add: palette_of_bytes_def XYZIMAGE_PALETTE_ENTRIES_def)

lemma open_inflate_Some:
  assumes "xyzimage_open_inflate hst img (xyz_size (width img) (height img)) res c w error
           = (Some img', w', error')"
    and "xyzimage_is_valid (Some img)" and "handle_inv img"
  shows "xyzimage_is_valid (Some img') \<and> handle_inv img' \<and> same_shape img img'"
  using assms
  by (auto simp: xyzimage_open_inflate_def xyzimage_get_buffer_def Let_def xyz_size_eq
      xyzimage_is_valid_def handle_inv_def same_shape_def XYZIMAGE_PALETTE_SIZE_def
      XYZIMAGE_PALETTE_ENTRIES_def
      split: prod.splits if_splits option.splits)

lemma open_payload_Some:
  assumes "xyzimage_open_payload hst rfn img w error = (Some img', w', error')"
    and "xyzimage_is_valid (Some img)" and "handle_inv img"
  shows "xyzimage_is_valid (Some img') \<and> handle_inv img' \<and> same_shape img img'"
proof -
  from assms(1) obtain res c w9 where
    "xyzimage_open_inflate hst img (xyz_size (width img) (height img)) res c w9 error
       = (Some img', w', error')"
    by (auto simp: xyzimage_open_payload_def Let_def split: prod.splits if_splits sum.splits)
  from open_inflate_Some [OF this assms(2,3)] show ?thesis .
qed

lemma open_Some:
  assumes "xyzimage_open hst w rf error = (Some img', w', error')"
  shows "xyzimage_is_valid (Some img') \<and> handle_inv img'"
proof -
  from assms obtain rfn img w4 error5 W H w3 error4 where
    al: "xyzimage_alloc hst w3 W H XYZIMAGE_FORMAT_DEFAULT error4 = (Some img, w4, error5)"
    and pl: "xyzimage_open_payload hst rfn img w4 error5 = (Some img', w', error')"
    by (auto simp: xyzimage_open_def Let_def split: option.splits prod.splits if_splits)
  note h = alloc_handle_ok [OF xyzimage_alloc_Some [OF al]]
  from open_payload_Some [OF pl h(1,2)] show ?thesis by simp
qed

section \<open>Byte order\<close>

lemma swap_swap_bytes:
  "ucast (drop_bit 8 (ucast (us :: uint16_t) :: uint32_t) OR push_bit 8 (ucast us :: uint32_t))
     = (drop_bit 8 us OR push_bit 8 us :: uint16_t)"
  by (rule bit_word_eqI) (auto simp: bit_simps)

text \<open>
  On either host, the bytes handed to the write function for a 16-bit value are its low byte
  followed by its high byte.
\<close>

lemma wire_bytes16:
  "host_bytes16 hst (xyzpriv_swap_when_big hst v) = [ucast v, ucast (drop_bit 8 v)]"
proof (cases "is_big hst")
  case False
  then show ?thesis by (simp add: host_bytes16_def xyzpriv_swap_when_big_def)
next
  case True
  have a: "(ucast (drop_bit 8 (drop_bit 8 v OR push_bit 8 v)) :: byte) = ucast v"
    by (rule bit_word_eqI) (auto simp: bit_simps)
  have b: "(ucast (drop_bit 8 v OR push_bit 8 v) :: byte) = ucast (drop_bit 8 v)"
    by (rule bit_word_eqI) (auto simp: bit_simps)
  from True have "host_bytes16 hst (xyzpriv_swap_when_big hst v) =
      [ucast (drop_bit 8 (drop_bit 8 v OR push_bit 8 v)), ucast (drop_bit 8 v OR push_bit 8 v)]"
    by (simp only: host_bytes16_def xyzpriv_swap_when_big_def swap_swap_bytes simp_thms if_True
        if_False)
  then show ?thesis
    by (simp only: a b)
qed

text \<open>
  On either host, two bytes read from the wire, low byte first, give the value back.
\<close>

lemma wire_word16:
  "xyzpriv_swap_when_big hst (host_word16 hst [ucast v, ucast (drop_bit 8 v)]) = (v :: uint16_t)"
proof (cases "is_big hst")
  case False
  have "push_bit 8 (ucast (ucast (drop_bit 8 v) :: byte)) OR ucast (ucast v :: byte) = v"
    by (rule bit_word_eqI) (auto simp: bit_simps)
  with False show ?thesis
    by (simp add: host_word16_def xyzpriv_swap_when_big_def)
next
  case True
  let ?x = "push_bit 8 (ucast (ucast v :: byte)) OR ucast (ucast (drop_bit 8 v) :: byte) :: uint16_t"
  have "drop_bit 8 ?x OR push_bit 8 ?x = v"
    by (rule bit_word_eqI) (auto simp: bit_simps)
  moreover from True have "xyzpriv_swap_when_big hst (host_word16 hst [ucast v, ucast (drop_bit 8 v)])
      = drop_bit 8 ?x OR push_bit 8 ?x"
    by (simp only: host_word16_def xyzpriv_swap_when_big_def swap_swap_bytes simp_thms if_True
        if_False nth_Cons_0 nth_Cons_Suc One_nat_def)
  ultimately show ?thesis
    by (simp only:)
qed

section \<open>Writing to a stream\<close>

lemma callback_error_None [simp]: "callback_error error None = error"
  by (simp add: callback_error_def)

lemma fwrite_func_append:
  "xyzpriv_fwrite_func (Some \<lparr>file_bytes = bs, file_pos = length bs, file_eof = e\<rparr>) buf =
     (Some \<lparr>file_bytes = bs @ buf, file_pos = length bs + length buf, file_eof = e\<rparr>,
      length buf, None)"
  by (simp add: xyzpriv_fwrite_func_def fwrite_def buf_store_def)

lemma length_xyz_magic [simp]: "length xyz_magic = 4"
  by (simp add: xyz_magic_def)

text \<open>
  A write that returns 1 made four calls of the write function after the compression: the
  tag, the width, the height, both low byte first, and the compressed bytes.
\<close>

lemma write_stream_success:
  assumes "xyzimage_write_stream hst wfn img z w error = (1, imgp', w', error')"
  shows "trace w' = trace w @
     [Write xyz_magic,
      Write [ucast (width img), ucast (drop_bit 8 (width img))],
      Write [ucast (height img), ucast (drop_bit 8 (height img))],
      Write z]"
  using assms
  by (auto simp: xyzimage_write_stream_def call_write_def Let_def wire_bytes16
      split: prod.splits if_splits)

lemma write_stream_file:
  assumes "z \<noteq> []" and "\<not> error_is_set error"
  shows "xyzimage_write_stream hst xyzpriv_fwrite_func img z
           \<lparr>userdata = Some \<lparr>file_bytes = [], file_pos = 0, file_eof = False\<rparr>, trace = t\<rparr> error =
     (1, Some (img\<lparr>data_len_compressed := length z\<rparr>),
      \<lparr>userdata = Some \<lparr>file_bytes = xyz_magic @
            [ucast (width img), ucast (drop_bit 8 (width img))] @
            [ucast (height img), ucast (drop_bit 8 (height img))] @ z,
          file_pos = 8 + length z, file_eof = False\<rparr>,
       trace = t @
         [Write xyz_magic,
          Write [ucast (width img), ucast (drop_bit 8 (width img))],
          Write [ucast (height img), ucast (drop_bit 8 (height img))],
          Write z]\<rparr>,
      error)"
proof -
  have w1: "xyzpriv_fwrite_func (Some \<lparr>file_bytes = [], file_pos = 0, file_eof = False\<rparr>) xyz_magic
      = (Some \<lparr>file_bytes = xyz_magic, file_pos = 4, file_eof = False\<rparr>, 4, None)"
    using fwrite_func_append [of "[]" False xyz_magic] by simp
  have w2: "\<And>a b. xyzpriv_fwrite_func
        (Some \<lparr>file_bytes = xyz_magic, file_pos = 4, file_eof = False\<rparr>) [a, b]
      = (Some \<lparr>file_bytes = xyz_magic @ [a, b], file_pos = 6, file_eof = False\<rparr>, 2, None)"
    using fwrite_func_append [of xyz_magic False] by simp
  have w3: "\<And>a b c d. xyzpriv_fwrite_func
        (Some \<lparr>file_bytes = xyz_magic @ [a, b], file_pos = 6, file_eof = False\<rparr>) [c, d]
      = (Some \<lparr>file_bytes = xyz_magic @ [a, b, c, d], file_pos = 8, file_eof = False\<rparr>, 2, None)"
    using fwrite_func_append [of "xyz_magic @ [_, _]" False] by simp
  have w4: "\<And>a b c d. xyzpriv_fwrite_func
        (Some \<lparr>file_bytes = xyz_magic @ [a, b, c, d], file_pos = 8, file_eof = False\<rparr>) z
      = (Some \<lparr>file_bytes = xyz_magic @ a # b # c # d # z, file_pos = 8 + length z,
                file_eof = False\<rparr>, length z, None)"
    using fwrite_func_append [of "xyz_magic @ [_, _, _, _]" False z] by simp
  show ?thesis
    using assms
    by (simp add: xyzimage_write_stream_def call_write_def Let_def wire_bytes16 w1 w2 w3 w4)
qed

section \<open>The default compression function on a well-behaved zlib\<close>

lemma compress_func_fits:
  assumes "compressBound hst (length buf) \<le> cap"
    and "malloc_ok hst Compress_tmp (compressBound hst (length buf))"
    and "compress2 hst buf (compressBound hst (length buf)) Z_BEST_COMPRESSION = (Z_OK, z)"
  shows "xyzpriv_compress_func hst buf cap = (z, None)"
  using assms by (simp add: xyzpriv_compress_func_def)

lemma compress_func_too_small:
  assumes "cap < compressBound hst (length buf)"
  shows "xyzpriv_compress_func hst buf cap = ([], Some XYZIMAGE_ERROR_BUFFER_TOO_SMALL)"
  using assms by (simp add: xyzpriv_compress_func_def)

lemma length_palette_bytes [simp]: "length (palette_bytes pal) = 768"
  by (simp add: palette_bytes_def XYZIMAGE_PALETTE_ENTRIES_def length_concat comp_def sum_list_triv)

lemma write_fill_eq:
  assumes "handle_inv img"
  shows "xyzimage_write_fill hst img = palette_bytes (palette img) @ the (data img)"
  using assms
  by (auto simp: xyzimage_write_fill_def handle_inv_def xyz_size_eq buf_store_def Let_def
      XYZIMAGE_PALETTE_SIZE_def XYZIMAGE_PALETTE_ENTRIES_def split: option.splits)

lemma length_write_fill:
  assumes "handle_inv img"
  shows "length (xyzimage_write_fill hst img) = 768 + unat (width img) * unat (height img)"
  using assms
  by (auto simp: write_fill_eq handle_inv_def split: option.splits)

text \<open>
  Writing a handle with the default compression function to an empty stream: the stream
  holds the tag, the dimensions and what \<open>compress2\<close> produced.
\<close>

lemma write_file_default:
  assumes "xyzimage_is_valid (Some img)" and "handle_inv img"
    and "format img = XYZIMAGE_FORMAT_DEFAULT"
    and "compress_func img = xyzpriv_compress_func hst"
    and "nominal = 768 + unat (width img) * unat (height img)"
    and "malloc_ok hst Write_decompressed nominal"
    and "malloc_ok hst Write_compressed nominal"
    and "malloc_ok hst Write_realloc (nominal * 2)"
    and "malloc_ok hst Compress_tmp (compressBound hst nominal)"
    and "compressBound hst nominal \<le> 2 * nominal"
    and "compress2 hst (xyzimage_write_fill hst img) (compressBound hst nominal) Z_BEST_COMPRESSION
           = (Z_OK, z)"
    and "z \<noteq> []"
  shows "\<exists>t. xyzimage_write hst (Some img)
           \<lparr>userdata = Some \<lparr>file_bytes = [], file_pos = 0, file_eof = False\<rparr>, trace = []\<rparr>
           (Some xyzpriv_fwrite_func) error =
     (1, Some (img\<lparr>data_len_compressed := length z\<rparr>),
      \<lparr>userdata = Some \<lparr>file_bytes = xyz_magic @
            [ucast (width img), ucast (drop_bit 8 (width img))] @
            [ucast (height img), ucast (drop_bit 8 (height img))] @ z,
          file_pos = 8 + length z, file_eof = False\<rparr>,
       trace = t\<rparr>,
      xyzpriv_set_error error XYZIMAGE_ERROR_OK)"
proof -
  let ?buf = "xyzimage_write_fill hst img"
  have n: "xyz_size (width img) (height img) = nominal"
    by (simp add: xyz_size_eq assms(5))
  have len: "length ?buf = nominal"
    by (simp add: length_write_fill [OF assms(2)] assms(5))
  show ?thesis
  proof (cases "compressBound hst nominal \<le> nominal")
    case True
    have c1: "xyzpriv_compress_func hst ?buf nominal = (z, None)"
      by (rule compress_func_fits) (simp_all add: len True assms(9,11))
    show ?thesis
      using assms(1,3,6,7,12)
      by (simp add: xyzimage_write_def n assms(4) xyzpriv_malloc_def call_compress_def c1
          callback_local_def Let_def write_stream_file)
  next
    case False
    have c1: "xyzpriv_compress_func hst ?buf nominal = ([], Some XYZIMAGE_ERROR_BUFFER_TOO_SMALL)"
      by (rule compress_func_too_small) (use False len in simp)
    have c2: "xyzpriv_compress_func hst ?buf (nominal * 2) = (z, None)"
      by (rule compress_func_fits) (use assms(10) in \<open>simp_all add: len assms(9,11)\<close>)
    show ?thesis
      using assms(1,3,6,7,8,12)
      by (simp add: xyzimage_write_def n assms(4) xyzpriv_malloc_def call_compress_def c1 c2
          callback_local_def Let_def write_stream_file)
  qed
qed

section \<open>Reading from a stream\<close>

lemma fread_func_full:
  assumes "p + n \<le> length bs"
  shows "xyzpriv_fread_func (Some \<lparr>file_bytes = bs, file_pos = p, file_eof = e\<rparr>) n =
     (Some \<lparr>file_bytes = bs, file_pos = p + n, file_eof = e\<rparr>, take n (drop p bs), None)"
  using assms by (auto simp: xyzpriv_fread_func_def fread_def Let_def min_def)

lemma fread_func_short:
  assumes "p \<le> length bs" and "length bs < p + n"
  shows "xyzpriv_fread_func (Some \<lparr>file_bytes = bs, file_pos = p, file_eof = e\<rparr>) n =
     (Some \<lparr>file_bytes = bs, file_pos = length bs, file_eof = True\<rparr>, drop p bs,
      Some XYZIMAGE_ERROR_IO_READ_END_OF_FILE)"
  using assms by (auto simp: xyzpriv_fread_func_def fread_def feof_def Let_def min_def)

lemma concat3_nth:
  assumes "\<And>j. length (f j) = 3" and "i < n" and "k < 3"
  shows "(concat (map f [0..<n]) @ rest) ! (i * 3 + k) = f i ! k"
  using assms(2)
proof (induction n arbitrary: rest)
  case 0
  then show ?case by simp
next
  case (Suc n)
  have len: "length (concat (map f [0..<n])) = n * 3"
    by (simp add: length_concat comp_def assms(1) sum_list_triv)
  show ?case
  proof (cases "i < n")
    case True
    from Suc.IH [OF True, of "f n @ rest"] show ?thesis by simp
  next
    case False
    with Suc.prems have "i = n" by simp
    then show ?thesis
      using assms(3) by (simp add: nth_append len assms(1))
  qed
qed

text \<open>The palette loop of \<open>xyzimage_open\<close> undoes the palette loop of \<open>xyzimage_write\<close>.\<close>

lemma palette_of_palette_bytes:
  assumes "length pal = 256"
  shows "palette_of_bytes (palette_bytes pal @ rest) = pal"
proof -
  let ?f = "\<lambda>i. [red (pal ! i), green (pal ! i), blue (pal ! i)]"
  have nth: "\<And>i k. i < 256 \<Longrightarrow> k < 3 \<Longrightarrow> (palette_bytes pal @ rest) ! (i * 3 + k) = ?f i ! k"
    unfolding palette_bytes_def XYZIMAGE_PALETTE_ENTRIES_def
    by (rule concat3_nth) simp_all
  have "palette_of_bytes (palette_bytes pal @ rest) = map (\<lambda>i. pal ! i) [0..<256]"
    unfolding palette_of_bytes_def XYZIMAGE_PALETTE_ENTRIES_def
  proof (rule map_cong [OF refl])
    fix i assume "i \<in> set [0..<256 :: nat]"
    then have i: "i < 256" by simp
    from nth [OF i, of 0] nth [OF i, of 1] nth [OF i, of 2]
    show "\<lparr>red = (palette_bytes pal @ rest) ! (i * 3),
           green = (palette_bytes pal @ rest) ! (i * 3 + 1),
           blue = (palette_bytes pal @ rest) ! (i * 3 + 2)\<rparr> = pal ! i"
      by simp
  qed
  also have "\<dots> = pal"
    using map_nth [of pal] assms by simp
  finally show ?thesis .
qed

text \<open>
  The reads of the compressed stream from a file whose rest is \<open>z\<close>, shorter than twice
  the nominal size: the end of the file is found by the first or by the second read, and the
  buffer starts with \<open>z\<close>.
\<close>

lemma open_read_file:
  assumes "length z < 2 * n" and "0 < n" and "malloc_ok hst Open_realloc (n * 2)"
  shows "\<exists>w9 c. xyzimage_open_read hst xyzpriv_fread_func n
           \<lparr>userdata = Some \<lparr>file_bytes = pre @ z, file_pos = length pre, file_eof = False\<rparr>,
            trace = t\<rparr>
         = Inr (w9, XYZIMAGE_ERROR_IO_READ_END_OF_FILE, length z, c) \<and> take (length z) c = z"
proof (cases "length z < n")
  case True
  have r: "xyzpriv_fread_func
      (Some \<lparr>file_bytes = pre @ z, file_pos = length pre, file_eof = False\<rparr>) n =
      (Some \<lparr>file_bytes = pre @ z, file_pos = length (pre @ z), file_eof = True\<rparr>,
       drop (length pre) (pre @ z), Some XYZIMAGE_ERROR_IO_READ_END_OF_FILE)"
    by (rule fread_func_short) (use True in simp_all)
  show ?thesis
    by (simp add: xyzimage_open_read_def call_read_def r callback_local_def Let_def
        take_buf_store_0)
next
  case False
  have r1: "xyzpriv_fread_func
      (Some \<lparr>file_bytes = pre @ z, file_pos = length pre, file_eof = False\<rparr>) n =
      (Some \<lparr>file_bytes = pre @ z, file_pos = length pre + n, file_eof = False\<rparr>,
       take n (drop (length pre) (pre @ z)), None)"
    by (rule fread_func_full) (use False in simp)
  have r2: "xyzpriv_fread_func
      (Some \<lparr>file_bytes = pre @ z, file_pos = length pre + n, file_eof = False\<rparr>) n =
      (Some \<lparr>file_bytes = pre @ z, file_pos = length (pre @ z), file_eof = True\<rparr>,
       drop (length pre + n) (pre @ z), Some XYZIMAGE_ERROR_IO_READ_END_OF_FILE)"
    by (rule fread_func_short) (use False assms(1) in simp_all)
  have l1: "length (take n z) = n"
    using False by simp
  have c: "take (length z) (buf_store (take n z @ fresh hst n (n * 2)) n (drop n z)) = z"
    using False assms(1) by (simp add: buf_store_def min_def)
  have len: "n + (length z - n) = length z"
    using False by simp
  show ?thesis
    using assms(3) False
    by (simp add: xyzimage_open_read_def call_read_def r1 r2 callback_local_def Let_def
        xyzpriv_malloc_def l1 len min_def del: take_all_iff) (auto simp: c buf_store_def)
qed

text \<open>
  Opening a file that holds the tag, the dimensions low byte first, and a compressed stream
  \<open>z\<close> shorter than twice the nominal size which inflates to the palette bytes followed by
  the pixel bytes.
\<close>

lemma open_file_ok:
  assumes "length pal = 256" and "length d = unat W * unat H"
    and "nominal = 768 + unat W * unat H"
    and "malloc_ok hst Alloc_data (unat W * unat H)"
    and "malloc_ok hst Open_compressed nominal"
    and "malloc_ok hst Open_decompressed nominal"
    and "malloc_ok hst Open_realloc (nominal * 2)"
    and "length z < 2 * nominal"
    and "uncompress hst z nominal = (Z_OK, palette_bytes pal @ d)"
  shows "\<exists>w'. xyzimage_open hst
           (file_of (xyz_magic @ [ucast W, ucast (drop_bit 8 W)] @
                     [ucast H, ucast (drop_bit 8 H)] @ z))
           (Some xyzpriv_fread_func) error =
     (Some ((the (xyzpriv_alloc hst))\<lparr>width := W, height := H, palette := pal,
              data_len := unat W * unat H, data_len_compressed := length z, data := Some d\<rparr>),
      w', xyzpriv_set_error error XYZIMAGE_ERROR_OK)"
proof -
  let ?pre = "xyz_magic @ [ucast W, ucast (drop_bit 8 W)] @ [ucast H, ucast (drop_bit 8 H)]"
  let ?bs = "?pre @ z"
  let ?f = "\<lambda>p. Some \<lparr>file_bytes = ?bs, file_pos = p, file_eof = False\<rparr>"
  let ?img = "(the (xyzpriv_alloc hst))\<lparr>width := W, height := H, data_len := unat W * unat H,
              data := Some (replicate (unat W * unat H) 0)\<rparr>"
  let ?t = "[Read 4, Read 2, Read 2, Alloc Alloc_data (unat W * unat H)]"
  have lp: "length ?pre = 8" by simp
  have r1: "xyzpriv_fread_func (userdata (file_of ?bs)) 4 = (?f 4, xyz_magic, None)"
    using fread_func_full [of 0 4 ?bs False] by (simp add: file_of_def)
  have r2: "xyzpriv_fread_func (?f 4) 2 = (?f 6, [ucast W, ucast (drop_bit 8 W)], None)"
    using fread_func_full [of 4 2 ?bs False] by simp
  have r3: "xyzpriv_fread_func (?f 6) 2 = (?f 8, [ucast H, ucast (drop_bit 8 H)], None)"
    using fread_func_full [of 6 2 ?bs False] by simp
  have q: "\<not> error_is_set (callback_error (xyzpriv_set_error error XYZIMAGE_ERROR_OK) None)"
    by simp
  have hdr: "xyzimage_open hst (file_of ?bs) (Some xyzpriv_fread_func) error =
      xyzimage_open_payload hst xyzpriv_fread_func ?img
        \<lparr>userdata = ?f 8, trace = trace (file_of ?bs) @ ?t\<rparr>
        (xyzpriv_set_error error XYZIMAGE_ERROR_OK)"
    by (rule open_reaches_payload [OF r1 q r2 _ q r3 _ q])
       (simp_all add: wire_word16 assms(4))
  have n: "xyz_size W H = nominal"
    by (simp add: xyz_size_eq assms(3))
  have pos: "0 < nominal"
    by (simp add: assms(3))
  from open_read_file [OF assms(8) pos assms(7), of ?pre
      "trace (file_of ?bs) @ ?t @ [Alloc Open_compressed nominal, Alloc Open_decompressed nominal]"]
  obtain w9 c where rd: "xyzimage_open_read hst xyzpriv_fread_func nominal
        \<lparr>userdata = ?f 8,
         trace = trace (file_of ?bs) @ ?t @
           [Alloc Open_compressed nominal, Alloc Open_decompressed nominal]\<rparr>
      = Inr (w9, XYZIMAGE_ERROR_IO_READ_END_OF_FILE, length z, c)"
    and c: "take (length z) c = z"
    unfolding lp by blast
  have un: "uncompress hst z (768 + unat W * unat H) = (Z_OK, palette_bytes pal @ d)"
    using assms(9) by (simp add: assms(3))
  have v: "xyzimage_is_valid (Some (?img\<lparr>data_len_compressed := length z, palette := pal\<rparr>))"
    by (simp add: xyzimage_is_valid_def xyzpriv_alloc_def XYZPRIV_CURRENT_STRUCT_VERSION_def)
  have inf: "xyzimage_open_inflate hst ?img nominal (length z) c w9
        (xyzpriv_set_error error XYZIMAGE_ERROR_OK) =
      (Some ((the (xyzpriv_alloc hst))\<lparr>width := W, height := H, palette := pal,
              data_len := unat W * unat H, data_len_compressed := length z, data := Some d\<rparr>),
       w9, xyzpriv_set_error error XYZIMAGE_ERROR_OK)"
    using v un
    by (simp add: xyzimage_open_inflate_def c palette_of_palette_bytes [OF assms(1)]
        xyzimage_get_buffer_def XYZIMAGE_PALETTE_SIZE_def XYZIMAGE_PALETTE_ENTRIES_def assms(2,3)
        xyzpriv_alloc_def Let_def)
  have "xyzimage_open_payload hst xyzpriv_fread_func ?img
        \<lparr>userdata = ?f 8, trace = trace (file_of ?bs) @ ?t\<rparr>
        (xyzpriv_set_error error XYZIMAGE_ERROR_OK) =
      (Some ((the (xyzpriv_alloc hst))\<lparr>width := W, height := H, palette := pal,
              data_len := unat W * unat H, data_len_compressed := length z, data := Some d\<rparr>),
       w9, xyzpriv_set_error error XYZIMAGE_ERROR_OK)"
    using assms(5,6) rd
    by (simp add: xyzimage_open_payload_def n xyzpriv_malloc_def inf)
  with hdr show ?thesis
    by simp
qed

section \<open>Round trip\<close>

text \<open>
  C1. A live handle (valid, with the invariant, in the default format and with the default
  compression function) of any width and height, with any palette and any pixels, is written
  with \<open>xyzimage_write\<close> through the default write adapter to an empty stream on a host \<open>hw\<close>,
  and the bytes of that stream are opened with \<open>xyzimage_open\<close> through the default read
  adapter on a host \<open>hr\<close> (of the same or the other byte order). The allocations succeed and
  zlib behaves: \<open>compressBound\<close> of the nominal size is below twice the nominal size,
  \<open>compress2\<close> succeeds within that bound and produces some \<open>z\<close>, and \<open>uncompress\<close> gives
  back from \<open>z\<close> what was compressed. Then the write returns 1, the open returns a valid
  handle, and that handle has the same width, height, palette and pixel buffer.
\<close>

theorem write_open_roundtrip:
  assumes "xyzimage_is_valid (Some img)" and "handle_inv img"
    and "format img = XYZIMAGE_FORMAT_DEFAULT"
    and "compress_func img = xyzpriv_compress_func hw"
    and "nominal = 768 + unat (width img) * unat (height img)"
    and "malloc_ok hw Write_decompressed nominal"
    and "malloc_ok hw Write_compressed nominal"
    and "malloc_ok hw Write_realloc (nominal * 2)"
    and "malloc_ok hw Compress_tmp (compressBound hw nominal)"
    and "malloc_ok hr Alloc_data (unat (width img) * unat (height img))"
    and "malloc_ok hr Open_compressed nominal"
    and "malloc_ok hr Open_decompressed nominal"
    and "malloc_ok hr Open_realloc (nominal * 2)"
    and "compressBound hw nominal < 2 * nominal"
    and "compress2 hw (xyzimage_write_fill hw img) (compressBound hw nominal) Z_BEST_COMPRESSION
           = (Z_OK, z)"
    and "z \<noteq> []" and "length z \<le> compressBound hw nominal"
    and "uncompress hr z nominal = (Z_OK, xyzimage_write_fill hw img)"
  shows "\<exists>img1 w1 f img2 w2.
     xyzimage_write hw (Some img) empty_file (Some xyzpriv_fwrite_func) error
       = (1, Some img1, w1, xyzpriv_set_error error XYZIMAGE_ERROR_OK) \<and>
     userdata w1 = Some f \<and>
     xyzimage_open hr (file_of (file_bytes f)) (Some xyzpriv_fread_func) error'
       = (Some img2, w2, xyzpriv_set_error error' XYZIMAGE_ERROR_OK) \<and>
     xyzimage_is_valid (Some img2) \<and>
     width img2 = width img \<and> height img2 = height img \<and>
     palette img2 = palette img \<and> data img2 = data img \<and> data_len img2 = data_len img"
proof -
  let ?bs = "xyz_magic @ [ucast (width img), ucast (drop_bit 8 (width img))] @
      [ucast (height img), ucast (drop_bit 8 (height img))] @ z"
  from assms(2) obtain d where d: "data img = Some d"
    and ld: "length d = unat (width img) * unat (height img)"
    and lp: "length (palette img) = 256"
    and dl: "data_len img = unat (width img) * unat (height img)"
    by (auto simp: handle_inv_def split: option.splits)
  have bound: "compressBound hw nominal \<le> 2 * nominal"
    using assms(14) by simp
  from write_file_default [OF assms(1-9) bound assms(15,16), of error]
  obtain t where wr: "xyzimage_write hw (Some img) empty_file (Some xyzpriv_fwrite_func) error =
      (1, Some (img\<lparr>data_len_compressed := length z\<rparr>),
       \<lparr>userdata = Some \<lparr>file_bytes = ?bs, file_pos = 8 + length z, file_eof = False\<rparr>,
        trace = t\<rparr>,
       xyzpriv_set_error error XYZIMAGE_ERROR_OK)"
    unfolding empty_file_def by blast
  have lz: "length z < 2 * nominal"
    using assms(14,17) by simp
  have un: "uncompress hr z nominal = (Z_OK, palette_bytes (palette img) @ d)"
    using assms(18) by (simp add: write_fill_eq [OF assms(2)] d)
  from open_file_ok [OF lp ld assms(5) assms(10-13) lz un, of error']
  obtain w2 where op: "xyzimage_open hr (file_of ?bs) (Some xyzpriv_fread_func) error' =
      (Some ((the (xyzpriv_alloc hr))\<lparr>width := width img, height := height img,
          palette := palette img, data_len := unat (width img) * unat (height img),
          data_len_compressed := length z, data := Some d\<rparr>),
       w2, xyzpriv_set_error error' XYZIMAGE_ERROR_OK)"
    by blast
  have v: "xyzimage_is_valid (Some ((the (xyzpriv_alloc hr))\<lparr>width := width img,
          height := height img, palette := palette img,
          data_len := unat (width img) * unat (height img),
          data_len_compressed := length z, data := Some d\<rparr>))"
    by (simp add: xyzimage_is_valid_def xyzpriv_alloc_def XYZPRIV_CURRENT_STRUCT_VERSION_def)
  let ?img2 = "(the (xyzpriv_alloc hr))\<lparr>width := width img,
          height := height img, palette := palette img,
          data_len := unat (width img) * unat (height img),
          data_len_compressed := length z, data := Some d\<rparr>"
  have "xyzimage_write hw (Some img) empty_file (Some xyzpriv_fwrite_func) error
       = (1, Some (img\<lparr>data_len_compressed := length z\<rparr>),
          \<lparr>userdata = Some \<lparr>file_bytes = ?bs, file_pos = 8 + length z, file_eof = False\<rparr>,
           trace = t\<rparr>,
          xyzpriv_set_error error XYZIMAGE_ERROR_OK) \<and>
     userdata \<lparr>userdata = Some \<lparr>file_bytes = ?bs, file_pos = 8 + length z, file_eof = False\<rparr>,
           trace = t\<rparr>
       = Some \<lparr>file_bytes = ?bs, file_pos = 8 + length z, file_eof = False\<rparr> \<and>
     xyzimage_open hr
       (file_of (file_bytes \<lparr>file_bytes = ?bs, file_pos = 8 + length z, file_eof = False\<rparr>))
       (Some xyzpriv_fread_func) error'
       = (Some ?img2, w2, xyzpriv_set_error error' XYZIMAGE_ERROR_OK) \<and>
     xyzimage_is_valid (Some ?img2) \<and>
     width ?img2 = width img \<and> height ?img2 = height img \<and>
     palette ?img2 = palette img \<and> data ?img2 = data img \<and> data_len ?img2 = data_len img"
    using wr op v by (simp add: d dl)
  then show ?thesis
    by blast
qed

lemma example_image_simps [simp]:
  "width example_image = 2" "height example_image = 2"
  "data example_image = Some [5, 5, 5, 5]" "data_len example_image = 4"
  "palette example_image = (replicate 256 \<lparr>red = 0, green = 0, blue = 0\<rparr>)
                  [5 := \<lparr>red = 10, green = 20, blue = 30\<rparr>]"
  "format example_image = XYZIMAGE_FORMAT_DEFAULT"
  "compress_func example_image = xyzpriv_compress_func little_host"
  "xyzimage_is_valid (Some example_image)"
  "handle_inv example_image"
  by (simp_all add: example_image_def xyzpriv_alloc_def xyzimage_is_valid_def handle_inv_def
      XYZPRIV_CURRENT_STRUCT_VERSION_def)

theorem write_open_roundtrip_witness:
  "(\<exists>img1 w1 f img2 w2.
     xyzimage_write little_host (Some example_image) empty_file (Some xyzpriv_fwrite_func)
         (Some XYZIMAGE_ERROR_IO_WRITE)
       = (1, Some img1, w1, Some XYZIMAGE_ERROR_OK) \<and>
     userdata w1 = Some f \<and>
     xyzimage_open big_host (file_of (file_bytes f)) (Some xyzpriv_fread_func)
         (Some XYZIMAGE_ERROR_IO_READ_GENERIC)
       = (Some img2, w2, Some XYZIMAGE_ERROR_OK) \<and>
     xyzimage_is_valid (Some img2) \<and>
     width img2 = 2 \<and> height img2 = 2 \<and> data img2 = Some [5, 5, 5, 5] \<and>
     palette img2 ! 5 = \<lparr>red = 10, green = 20, blue = 30\<rparr>) \<and>
   (\<exists>img1 w1 f img2 w2.
     xyzimage_write big_host (Some ((the (xyzpriv_alloc big_host))\<lparr>data := Some []\<rparr>))
         empty_file (Some xyzpriv_fwrite_func) None
       = (1, Some img1, w1, None) \<and>
     userdata w1 = Some f \<and>
     xyzimage_open little_host (file_of (file_bytes f)) (Some xyzpriv_fread_func) None
       = (Some img2, w2, None) \<and>
     xyzimage_is_valid (Some img2) \<and>
     width img2 = 0 \<and> height img2 = 0 \<and> data img2 = Some [] \<and>
     palette img2 = replicate 256 \<lparr>red = 0, green = 0, blue = 0\<rparr>)"
proof -
  let ?buf = "xyzimage_write_fill little_host example_image"
  have len: "length ?buf = 772"
    by (simp add: length_write_fill)
  have c: "stored_compress2 ?buf 785 Z_BEST_COMPRESSION = (Z_OK, 0x78 # ?buf)"
    by (simp add: stored_compress2_def len Z_OK_def)
  have u: "stored_uncompress (0x78 # ?buf) 772 = (Z_OK, ?buf)"
    by (simp add: stored_uncompress_def len Z_OK_def)
  have "\<exists>img1 w1 f img2 w2.
     xyzimage_write little_host (Some example_image) empty_file (Some xyzpriv_fwrite_func)
         (Some XYZIMAGE_ERROR_IO_WRITE)
       = (1, Some img1, w1, xyzpriv_set_error (Some XYZIMAGE_ERROR_IO_WRITE) XYZIMAGE_ERROR_OK) \<and>
     userdata w1 = Some f \<and>
     xyzimage_open big_host (file_of (file_bytes f)) (Some xyzpriv_fread_func)
         (Some XYZIMAGE_ERROR_IO_READ_GENERIC)
       = (Some img2, w2,
          xyzpriv_set_error (Some XYZIMAGE_ERROR_IO_READ_GENERIC) XYZIMAGE_ERROR_OK) \<and>
     xyzimage_is_valid (Some img2) \<and>
     width img2 = width example_image \<and> height img2 = height example_image \<and>
     palette img2 = palette example_image \<and> data img2 = data example_image \<and>
     data_len img2 = data_len example_image"
    by (rule write_open_roundtrip [where nominal = 772 and z = "0x78 # ?buf"])
       (simp_all add: c u stored_compressBound_def len)
  then have first: "\<exists>img1 w1 f img2 w2.
     xyzimage_write little_host (Some example_image) empty_file (Some xyzpriv_fwrite_func)
         (Some XYZIMAGE_ERROR_IO_WRITE)
       = (1, Some img1, w1, Some XYZIMAGE_ERROR_OK) \<and>
     userdata w1 = Some f \<and>
     xyzimage_open big_host (file_of (file_bytes f)) (Some xyzpriv_fread_func)
         (Some XYZIMAGE_ERROR_IO_READ_GENERIC)
       = (Some img2, w2, Some XYZIMAGE_ERROR_OK) \<and>
     xyzimage_is_valid (Some img2) \<and>
     width img2 = 2 \<and> height img2 = 2 \<and> data img2 = Some [5, 5, 5, 5] \<and>
     palette img2 ! 5 = \<lparr>red = 10, green = 20, blue = 30\<rparr>"
    by (auto simp: xyzpriv_set_error_def)
  let ?e = "(the (xyzpriv_alloc big_host))\<lparr>data := Some []\<rparr>"
  let ?ebuf = "xyzimage_write_fill big_host ?e"
  have einv: "handle_inv ?e"
    by (simp add: handle_inv_def xyzpriv_alloc_def XYZIMAGE_PALETTE_ENTRIES_def)
  have ev: "xyzimage_is_valid (Some ?e)"
    by (simp add: xyzimage_is_valid_def xyzpriv_alloc_def XYZPRIV_CURRENT_STRUCT_VERSION_def)
  have ef: "width ?e = 0" "height ?e = 0" "format ?e = XYZIMAGE_FORMAT_DEFAULT"
    "compress_func ?e = xyzpriv_compress_func big_host" "data ?e = Some []" "data_len ?e = 0"
    "palette ?e = replicate 256 \<lparr>red = 0, green = 0, blue = 0\<rparr>"
    by (simp_all add: xyzpriv_alloc_def XYZIMAGE_PALETTE_ENTRIES_def)
  have elen: "length ?ebuf = 768"
    using length_write_fill [OF einv, of big_host] by (simp add: ef)
  have ec: "stored_compress2 ?ebuf 781 Z_BEST_COMPRESSION = (Z_OK, 0x78 # ?ebuf)"
    by (simp add: stored_compress2_def elen Z_OK_def)
  have eu: "stored_uncompress (0x78 # ?ebuf) 768 = (Z_OK, ?ebuf)"
    by (simp add: stored_uncompress_def elen Z_OK_def)
  have "\<exists>img1 w1 f img2 w2.
     xyzimage_write big_host (Some ?e) empty_file (Some xyzpriv_fwrite_func) None
       = (1, Some img1, w1, xyzpriv_set_error None XYZIMAGE_ERROR_OK) \<and>
     userdata w1 = Some f \<and>
     xyzimage_open little_host (file_of (file_bytes f)) (Some xyzpriv_fread_func) None
       = (Some img2, w2, xyzpriv_set_error None XYZIMAGE_ERROR_OK) \<and>
     xyzimage_is_valid (Some img2) \<and>
     width img2 = width ?e \<and> height img2 = height ?e \<and>
     palette img2 = palette ?e \<and> data img2 = data ?e \<and> data_len img2 = data_len ?e"
    by (rule write_open_roundtrip [OF ev einv, where nominal = 768 and z = "0x78 # ?ebuf"])
       (simp_all add: ec eu stored_compressBound_def elen ef)
  then have second: "\<exists>img1 w1 f img2 w2.
     xyzimage_write big_host (Some ?e) empty_file (Some xyzpriv_fwrite_func) None
       = (1, Some img1, w1, None) \<and>
     userdata w1 = Some f \<and>
     xyzimage_open little_host (file_of (file_bytes f)) (Some xyzpriv_fread_func) None
       = (Some img2, w2, None) \<and>
     xyzimage_is_valid (Some img2) \<and>
     width img2 = 0 \<and> height img2 = 0 \<and> data img2 = Some [] \<and>
     palette img2 = replicate 256 \<lparr>red = 0, green = 0, blue = 0\<rparr>"
    by (auto simp: xyzpriv_set_error_def ef)
  from first second show ?thesis
    by (rule conjI)
qed

section \<open>Byte order on the wire\<close>

text \<open>
  C9. Whenever \<open>xyzimage_write\<close> returns 1, on a host of either byte order and with any write
  function, its calls of the write function are, in this order and after everything else it
  did: the 4-byte tag \<open>XYZ1\<close>, the two bytes of the width with the low byte first, the two
  bytes of the height with the low byte first, and the compressed stream. (On a big-endian
  host \<open>xyzpriv_swap_when_big\<close> swaps the value before its two bytes are taken from memory,
  on a little-endian host it does not.) A width \<open>0x0102\<close> is the byte \<open>0x02\<close> followed by
  \<open>0x01\<close>.
\<close>

theorem write_little_endian_wire:
  assumes "xyzimage_write hst (Some img) w0 (Some wfn) error = (1, imgp', w', error')"
  shows "\<exists>pre z. trace w' = trace w0 @ pre @
       [Write xyz_magic,
        Write [ucast (width img), ucast (drop_bit 8 (width img))],
        Write [ucast (height img), ucast (drop_bit 8 (height img))],
        Write z] \<and>
     (\<forall>b. Write b \<notin> set pre)"
proof -
  from assms obtain z w e pre where
    st: "xyzimage_write_stream hst wfn img z w e = (1, imgp', w', error')"
    and tr: "trace w = trace w0 @ pre" and pre: "\<forall>b. Write b \<notin> set pre"
    by (auto simp: xyzimage_write_def Let_def xyzpriv_malloc_def call_compress_def
        split: if_splits option.splits prod.splits XYZImage_Format.splits)
  from write_stream_success [OF st] tr pre show ?thesis
    by auto
qed

theorem write_little_endian_wire_witness:
  "\<exists>img1 w1 f pre z.
     xyzimage_write big_host
         (Some ((the (xyzpriv_alloc big_host))\<lparr>width := 0x0102, height := 0, data := Some []\<rparr>))
         empty_file (Some xyzpriv_fwrite_func) (Some XYZIMAGE_ERROR_OK)
       = (1, Some img1, w1, Some XYZIMAGE_ERROR_OK) \<and>
     trace w1 = pre @ [Write xyz_magic, Write [0x02, 0x01], Write [0, 0], Write z] \<and>
     userdata w1 = Some f \<and>
     take 8 (file_bytes f) = [0x58, 0x59, 0x5A, 0x31, 0x02, 0x01, 0, 0]"
proof -
  let ?img = "(the (xyzpriv_alloc big_host))\<lparr>width := 0x0102, height := 0, data := Some []\<rparr>"
  let ?buf = "xyzimage_write_fill big_host ?img"
  have inv: "handle_inv ?img"
    by (simp add: handle_inv_def xyzpriv_alloc_def XYZIMAGE_PALETTE_ENTRIES_def)
  have v: "xyzimage_is_valid (Some ?img)"
    by (simp add: xyzimage_is_valid_def xyzpriv_alloc_def XYZPRIV_CURRENT_STRUCT_VERSION_def)
  have len: "length ?buf = 768"
    using length_write_fill [OF inv, of big_host] by simp
  have c: "compress2 big_host ?buf (compressBound big_host 768) Z_BEST_COMPRESSION
      = (Z_OK, 0x78 # ?buf)"
    by (simp add: stored_compress2_def stored_compressBound_def len Z_OK_def)
  have "\<exists>t. xyzimage_write big_host (Some ?img)
           \<lparr>userdata = Some \<lparr>file_bytes = [], file_pos = 0, file_eof = False\<rparr>, trace = []\<rparr>
           (Some xyzpriv_fwrite_func) (Some XYZIMAGE_ERROR_OK) =
     (1, Some (?img\<lparr>data_len_compressed := length (0x78 # ?buf)\<rparr>),
      \<lparr>userdata = Some \<lparr>file_bytes = xyz_magic @
            [ucast (width ?img), ucast (drop_bit 8 (width ?img))] @
            [ucast (height ?img), ucast (drop_bit 8 (height ?img))] @ 0x78 # ?buf,
          file_pos = 8 + length (0x78 # ?buf), file_eof = False\<rparr>,
       trace = t\<rparr>,
      xyzpriv_set_error (Some XYZIMAGE_ERROR_OK) XYZIMAGE_ERROR_OK)"
    by (rule write_file_default [OF v inv _ _ _ _ _ _ _ _ c])
       (simp_all add: xyzpriv_alloc_def stored_compressBound_def)
  then obtain t where wr: "xyzimage_write big_host (Some ?img) empty_file
           (Some xyzpriv_fwrite_func) (Some XYZIMAGE_ERROR_OK) =
     (1, Some (?img\<lparr>data_len_compressed := length (0x78 # ?buf)\<rparr>),
      \<lparr>userdata = Some \<lparr>file_bytes = xyz_magic @
            [ucast (width ?img), ucast (drop_bit 8 (width ?img))] @
            [ucast (height ?img), ucast (drop_bit 8 (height ?img))] @ 0x78 # ?buf,
          file_pos = 8 + length (0x78 # ?buf), file_eof = False\<rparr>,
       trace = t\<rparr>,
      Some XYZIMAGE_ERROR_OK)"
    by (auto simp: empty_file_def xyzpriv_set_error_def)
  from write_little_endian_wire [OF wr] obtain pre z where
    "t = pre @ [Write xyz_magic, Write [0x02, 0x01], Write [0, 0], Write z]"
    by (auto simp: empty_file_def)
  with wr show ?thesis
    by (simp add: xyz_magic_def)
qed

section \<open>The invariant through the public operations\<close>

lemma write_stream_handle:
  assumes "xyzimage_write_stream hst wfn img z w e = (ret, imgp', w', e')"
  shows "imgp' = Some img \<or> imgp' = Some (img\<lparr>data_len_compressed := length z\<rparr>)"
  using assms
  by (auto simp: xyzimage_write_stream_def Let_def split: prod.splits if_splits)

lemma write_handle:
  assumes "xyzimage_write hst (Some img) w wfo error = (ret, imgp', w', e')"
  shows "imgp' = Some img \<or> (\<exists>n. imgp' = Some (img\<lparr>data_len_compressed := n\<rparr>))
         \<or> imgp' = snd (xyzimage_free (Some img))"
proof -
  from assms consider "imgp' = Some img" | "imgp' = snd (xyzimage_free (Some img))"
    | wfn z w1 e1 where "xyzimage_write_stream hst wfn img z w1 e1 = (ret, imgp', w', e')"
    by (auto simp: xyzimage_write_def Let_def
        split: if_splits option.splits prod.splits XYZImage_Format.splits)
  then show ?thesis
  proof cases
    case 3
    from write_stream_handle [OF this] show ?thesis by blast
  qed simp_all
qed

lemma write_keeps_invariant:
  assumes "xyzimage_write hst (Some img) w wfo error = (ret, imgp', w', e')"
    and "xyzimage_is_valid imgp'" and "handle_inv img"
  shows "\<exists>img'. imgp' = Some img' \<and> handle_inv img' \<and> same_shape img img'"
proof -
  from write_handle [OF assms(1)] consider "imgp' = Some img"
    | n where "imgp' = Some (img\<lparr>data_len_compressed := n\<rparr>)"
    | "imgp' = snd (xyzimage_free (Some img))"
    by blast
  then show ?thesis
  proof cases
    case 1
    with assms(3) show ?thesis by (simp add: same_shape_def)
  next
    case 2
    with assms(3) show ?thesis by (simp add: same_shape_def handle_inv_def split: option.splits)
  next
    case 3
    with assms(2) free_invalidates [of "Some img"] show ?thesis by simp
  qed
qed

lemma fwrite_keeps_invariant:
  assumes "xyzimage_fwrite hst (Some img) w error = (ret, imgp', w', e')"
    and "xyzimage_is_valid imgp'" and "handle_inv img"
  shows "\<exists>img'. imgp' = Some img' \<and> handle_inv img' \<and> same_shape img img'"
proof -
  from assms(1) consider "imgp' = Some img"
    | e where "xyzimage_write hst (Some img) w (Some xyzpriv_fwrite_func) e = (ret, imgp', w', e')"
    by (auto simp: xyzimage_fwrite_def Let_def split: if_splits)
  then show ?thesis
  proof cases
    case 1
    with assms(3) show ?thesis by (simp add: same_shape_def)
  next
    case 2
    from write_keeps_invariant [OF this assms(2,3)] show ?thesis .
  qed
qed

text \<open>
  What holds of the invariant. A handle returned by \<open>xyzimage_alloc\<close>, \<open>xyzimage_open\<close>
  or \<open>xyzimage_fopen\<close> is valid and has the invariant: 256 palette entries (768 bytes) and
  a pixel buffer of \<open>width * height\<close> bytes, which is also \<open>data_len\<close>. On a valid handle
  with the invariant, \<open>xyzimage_get_buffer\<close> reports the length \<open>width * height\<close>, and
  \<open>xyzimage_set_compress_func\<close> keeps the handle valid with the invariant and the same
  width, height and buffer length. \<open>xyzimage_write\<close> and \<open>xyzimage_fwrite\<close> do so only on
  the runs that leave the handle valid; the run that does not is the subject of the next
  section.
\<close>

theorem handle_invariant:
  "(xyzimage_alloc hst w W H fmt error = (Some img, w', error') \<longrightarrow>
      xyzimage_is_valid (Some img) \<and> handle_inv img \<and> width img = W \<and> height img = H) \<and>
   (xyzimage_open hst w rfo error = (Some img, w', error') \<longrightarrow>
      xyzimage_is_valid (Some img) \<and> handle_inv img) \<and>
   (xyzimage_fopen hst fw error = (Some img, fw', error') \<longrightarrow>
      xyzimage_is_valid (Some img) \<and> handle_inv img) \<and>
   (xyzimage_is_valid (Some img) \<and> handle_inv img \<longrightarrow>
      xyzimage_get_buffer (Some img) (Some k)
        = (data img, Some (unat (width img) * unat (height img))) \<and>
      (\<exists>img'. xyzimage_set_compress_func hst (Some img) cf = Some img' \<and>
         xyzimage_is_valid (Some img') \<and> handle_inv img' \<and> same_shape img img') \<and>
      (xyzimage_write hst (Some img) w wfo error = (ret, imgp', w', error') \<and>
         xyzimage_is_valid imgp' \<longrightarrow>
         (\<exists>img'. imgp' = Some img' \<and> handle_inv img' \<and> same_shape img img')) \<and>
      (xyzimage_fwrite hst (Some img) fw error = (ret, imgp', fw', error') \<and>
         xyzimage_is_valid imgp' \<longrightarrow>
         (\<exists>img'. imgp' = Some img' \<and> handle_inv img' \<and> same_shape img img')))"
proof -
  have a: "xyzimage_is_valid (Some img) \<and> handle_inv img \<and> width img = W \<and> height img = H"
    if "xyzimage_alloc hst w W H fmt error = (Some img, w', error')"
    using alloc_handle_ok [OF xyzimage_alloc_Some [OF that]] by simp
  have b: "xyzimage_is_valid (Some img) \<and> handle_inv img"
    if "xyzimage_open hst w rfo error = (Some img, w', error')"
    using open_Some [OF that] .
  have c: "xyzimage_is_valid (Some img) \<and> handle_inv img"
    if "xyzimage_fopen hst fw error = (Some img, fw', error')"
  proof -
    from that obtain e where "xyzimage_open hst fw (Some xyzpriv_fread_func) e
        = (Some img, fw', error')"
      by (auto simp: xyzimage_fopen_def Let_def split: if_splits)
    from open_Some [OF this] show ?thesis .
  qed
  have d: "xyzimage_get_buffer (Some img) (Some k)
        = (data img, Some (unat (width img) * unat (height img)))"
    if "xyzimage_is_valid (Some img)" "handle_inv img"
    using that by (simp add: xyzimage_get_buffer_def handle_inv_def)
  have e: "\<exists>img'. xyzimage_set_compress_func hst (Some img) cf = Some img' \<and>
         xyzimage_is_valid (Some img') \<and> handle_inv img' \<and> same_shape img img'"
    if "xyzimage_is_valid (Some img)" "handle_inv img"
    using that
    by (cases cf) (auto simp: xyzimage_set_compress_func_def xyzimage_is_valid_def handle_inv_def
        same_shape_def split: if_splits option.splits)
  from a b c d e write_keeps_invariant fwrite_keeps_invariant show ?thesis
    by blast
qed

theorem handle_invariant_witness:
  "(\<exists>img w' e'.
      xyzimage_alloc little_host empty_file 2 2 XYZIMAGE_FORMAT_DEFAULT (Some XYZIMAGE_ERROR_OK)
        = (Some img, w', e') \<and>
      xyzimage_is_valid (Some img) \<and> handle_inv img \<and> width img = 2 \<and> height img = 2) \<and>
   (\<exists>img w' e'.
      xyzimage_open big_host
          (file_of (xyz_magic @ [0, 0] @ [0, 0] @
             0x78 # palette_bytes (replicate 256 \<lparr>red = 7, green = 8, blue = 9\<rparr>)))
          (Some xyzpriv_fread_func) (Some XYZIMAGE_ERROR_OK)
        = (Some img, w', e') \<and>
      xyzimage_is_valid (Some img) \<and> handle_inv img) \<and>
   xyzimage_is_valid (Some example_image) \<and> handle_inv example_image \<and>
   xyzimage_get_buffer (Some example_image) (Some 0) = (Some [5, 5, 5, 5], Some 4) \<and>
   (\<exists>ret img' w' e'.
      xyzimage_write little_host (Some example_image) empty_file (Some xyzpriv_fwrite_func)
          (Some XYZIMAGE_ERROR_OK)
        = (ret, Some img', w', e') \<and>
      handle_inv img' \<and> same_shape example_image img')"
proof -
  let ?pal = "replicate 256 \<lparr>red = 7 :: byte, green = 8 :: byte, blue = 9 :: byte\<rparr>"
  have al: "xyzimage_alloc little_host empty_file 2 2 XYZIMAGE_FORMAT_DEFAULT
        (Some XYZIMAGE_ERROR_OK) =
      (Some ((the (xyzpriv_alloc little_host))\<lparr>width := 2, height := 2,
               data_len := unat (2 :: uint16_t) * unat (2 :: uint16_t),
               data := Some (replicate (unat (2 :: uint16_t) * unat (2 :: uint16_t)) 0)\<rparr>),
       empty_file\<lparr>trace := trace empty_file @
          [Alloc Alloc_data (unat (2 :: uint16_t) * unat (2 :: uint16_t))]\<rparr>,
       xyzpriv_set_error (Some XYZIMAGE_ERROR_OK) XYZIMAGE_ERROR_OK)"
    by (rule xyzimage_alloc_ok) simp
  note a = handle_invariant [THEN conjunct1, rule_format, OF al]
  have "\<exists>w'. xyzimage_open big_host
           (file_of (xyz_magic @ [ucast (0 :: uint16_t), ucast (drop_bit 8 (0 :: uint16_t))] @
                     [ucast (0 :: uint16_t), ucast (drop_bit 8 (0 :: uint16_t))] @
                     0x78 # palette_bytes ?pal))
           (Some xyzpriv_fread_func) (Some XYZIMAGE_ERROR_OK) =
     (Some ((the (xyzpriv_alloc big_host))\<lparr>width := 0, height := 0, palette := ?pal,
              data_len := unat (0 :: uint16_t) * unat (0 :: uint16_t),
              data_len_compressed := length (0x78 # palette_bytes ?pal), data := Some []\<rparr>),
      w', xyzpriv_set_error (Some XYZIMAGE_ERROR_OK) XYZIMAGE_ERROR_OK)"
    by (rule open_file_ok [where nominal = 768])
       (simp_all add: stored_uncompress_def Z_OK_def)
  then obtain w2 img2 where op: "xyzimage_open big_host
           (file_of (xyz_magic @ [0, 0] @ [0, 0] @ 0x78 # palette_bytes ?pal))
           (Some xyzpriv_fread_func) (Some XYZIMAGE_ERROR_OK) =
     (Some img2, w2, xyzpriv_set_error (Some XYZIMAGE_ERROR_OK) XYZIMAGE_ERROR_OK)"
    by auto
  note b = handle_invariant [THEN conjunct2, THEN conjunct1, rule_format, OF op]
  obtain ret imgp' w' e' where wr: "xyzimage_write little_host (Some example_image) empty_file
        (Some xyzpriv_fwrite_func) (Some XYZIMAGE_ERROR_OK) = (ret, imgp', w', e')"
    by (rule prod_cases4)
  have len: "length (xyzimage_write_fill little_host example_image) = 772"
    by (simp add: length_write_fill)
  have "\<exists>t. xyzimage_write little_host (Some example_image)
           \<lparr>userdata = Some \<lparr>file_bytes = [], file_pos = 0, file_eof = False\<rparr>, trace = []\<rparr>
           (Some xyzpriv_fwrite_func) (Some XYZIMAGE_ERROR_OK) =
     (1, Some (example_image\<lparr>data_len_compressed :=
                 length (0x78 # xyzimage_write_fill little_host example_image)\<rparr>),
      \<lparr>userdata = Some \<lparr>file_bytes = xyz_magic @
            [ucast (width example_image), ucast (drop_bit 8 (width example_image))] @
            [ucast (height example_image), ucast (drop_bit 8 (height example_image))] @
            0x78 # xyzimage_write_fill little_host example_image,
          file_pos = 8 + length (0x78 # xyzimage_write_fill little_host example_image),
          file_eof = False\<rparr>,
       trace = t\<rparr>,
      xyzpriv_set_error (Some XYZIMAGE_ERROR_OK) XYZIMAGE_ERROR_OK)"
    by (rule write_file_default [where nominal = 772])
       (simp_all add: stored_compressBound_def stored_compress2_def len Z_OK_def)
  with wr have iv: "xyzimage_is_valid imgp'"
    by (auto simp: empty_file_def xyzimage_is_valid_def example_image_def xyzpriv_alloc_def
        XYZPRIV_CURRENT_STRUCT_VERSION_def)
  have c: "\<exists>img'. imgp' = Some img' \<and> handle_inv img' \<and> same_shape example_image img'"
    using handle_invariant [THEN conjunct2, THEN conjunct2, THEN conjunct2, rule_format,
        THEN conjunct2, THEN conjunct2, THEN conjunct1, rule_format, of example_image
        little_host empty_file "Some xyzpriv_fwrite_func" "Some XYZIMAGE_ERROR_OK" ret imgp' w' e']
      wr iv
    by simp
  have d: "xyzimage_get_buffer (Some example_image) (Some 0) = (Some [5, 5, 5, 5], Some 4)"
    using handle_invariant [THEN conjunct2, THEN conjunct2, THEN conjunct2, rule_format,
        THEN conjunct1, of example_image 0]
    by simp
  have A: "\<exists>img w' e'.
      xyzimage_alloc little_host empty_file 2 2 XYZIMAGE_FORMAT_DEFAULT (Some XYZIMAGE_ERROR_OK)
        = (Some img, w', e') \<and>
      xyzimage_is_valid (Some img) \<and> handle_inv img \<and> width img = 2 \<and> height img = 2"
    using al a by blast
  have B: "\<exists>img w' e'.
      xyzimage_open big_host
          (file_of (xyz_magic @ [0, 0] @ [0, 0] @ 0x78 # palette_bytes ?pal))
          (Some xyzpriv_fread_func) (Some XYZIMAGE_ERROR_OK)
        = (Some img, w', e') \<and>
      xyzimage_is_valid (Some img) \<and> handle_inv img"
    using op b by blast
  have C: "\<exists>ret img' w' e'.
      xyzimage_write little_host (Some example_image) empty_file (Some xyzpriv_fwrite_func)
          (Some XYZIMAGE_ERROR_OK)
        = (ret, Some img', w', e') \<and>
      handle_inv img' \<and> same_shape example_image img'"
    using wr c by blast
  from A B C d show ?thesis
    by simp
qed

section \<open>Two more paths\<close>

text \<open>
  A payload read that reports an error other than the end of the stream is not an oversized
  stream: \<open>xyzimage_open\<close> returns the null pointer with that error, after this one read.
\<close>

lemma open_read_error_propagates:
  assumes "rfn (userdata w0) 4 = (u1, xyz_magic, r1)"
    and "\<not> error_is_set (callback_error (xyzpriv_set_error error XYZIMAGE_ERROR_OK) r1)"
    and "rfn u1 2 = (u2, wb, r2)" and "length wb = 2"
    and "\<not> error_is_set (callback_error (xyzpriv_set_error error XYZIMAGE_ERROR_OK) r2)"
    and "rfn u2 2 = (u3, hb, r3)" and "length hb = 2"
    and "\<not> error_is_set (callback_error (xyzpriv_set_error error XYZIMAGE_ERROR_OK) r3)"
    and "W = xyzpriv_swap_when_big hst (host_word16 hst wb)"
    and "H = xyzpriv_swap_when_big hst (host_word16 hst hb)"
    and "nominal = 768 + unat W * unat H"
    and "malloc_ok hst Alloc_data (unat W * unat H)"
    and "malloc_ok hst Open_compressed nominal"
    and "malloc_ok hst Open_decompressed nominal"
    and "rfn u3 nominal = (u4, buf1, Some e)"
    and "e \<noteq> XYZIMAGE_ERROR_OK" and "e \<noteq> XYZIMAGE_ERROR_IO_READ_END_OF_FILE"
  shows "xyzimage_open hst w0 (Some rfn) error =
     (None,
      \<lparr>userdata = u4,
       trace = trace w0 @
         [Read 4, Read 2, Read 2, Alloc Alloc_data (unat W * unat H),
          Alloc Open_compressed nominal, Alloc Open_decompressed nominal, Read nominal]\<rparr>,
      xyzpriv_set_error error e)"
proof -
  have n: "xyz_size W H = nominal"
    by (simp add: xyz_size_eq assms(11))
  show ?thesis
    using assms(13-17)
    by (simp add: open_reaches_payload [OF assms(1-10) assms(12)] xyzimage_open_payload_def
        n xyzpriv_malloc_def xyzimage_open_read_def call_read_def callback_local_def Let_def)
qed

text \<open>
  When the first compression reports \<open>XYZIMAGE_ERROR_BUFFER_TOO_SMALL\<close> and the output
  buffer cannot be grown, \<open>xyzimage_write\<close> calls \<open>xyzimage_free\<close> on the caller's handle
  before it returns 0 with \<open>XYZIMAGE_ERROR_OUT_OF_MEMORY\<close>: the handle is not valid afterwards.
  The two allocation failures before it in the same function leave the handle alone.
\<close>

lemma write_realloc_failure_releases:
  assumes "xyzimage_is_valid (Some img)" and "format img = XYZIMAGE_FORMAT_DEFAULT"
    and "nominal = 768 + unat (width img) * unat (height img)"
    and "malloc_ok hst Write_decompressed nominal"
    and "malloc_ok hst Write_compressed nominal"
    and "compress_func img (xyzimage_write_fill hst img) nominal
           = (out1, Some XYZIMAGE_ERROR_BUFFER_TOO_SMALL)"
    and "\<not> malloc_ok hst Write_realloc (nominal * 2)"
  shows "xyzimage_write hst (Some img) w0 (Some wfn) error =
     (0, snd (xyzimage_free (Some img)),
      w0\<lparr>trace := trace w0 @
         [Alloc Write_decompressed nominal, Alloc Write_compressed nominal, Compress nominal,
          Alloc Write_realloc (nominal * 2)]\<rparr>,
      xyzpriv_set_error error XYZIMAGE_ERROR_OUT_OF_MEMORY) \<and>
     \<not> xyzimage_is_valid (snd (xyzimage_free (Some img)))"
proof -
  have n: "xyz_size (width img) (height img) = nominal"
    by (simp add: xyz_size_eq assms(3))
  show ?thesis
    using assms(1,2,4,5,6,7)
    by (simp add: xyzimage_write_def n xyzpriv_malloc_def call_compress_def callback_local_def
        Let_def free_invalidates)
qed

lemma write_malloc_failure_keeps:
  assumes "xyzimage_is_valid (Some img)" and "format img = XYZIMAGE_FORMAT_DEFAULT"
    and "nominal = 768 + unat (width img) * unat (height img)"
    and "\<not> malloc_ok hst Write_decompressed nominal \<or> \<not> malloc_ok hst Write_compressed nominal"
  shows "fst (snd (xyzimage_write hst (Some img) w0 (Some wfn) error)) = Some img"
proof -
  have n: "xyz_size (width img) (height img) = nominal"
    by (simp add: xyz_size_eq assms(3))
  show ?thesis
    using assms(1,2,4)
    by (auto simp: xyzimage_write_def n xyzpriv_malloc_def Let_def)
qed

text \<open>
  In every run of \<open>xyzimage_open\<close> past the header, whatever the read function does, the
  buffer for the compressed stream is asked for with the nominal size and grown at most to
  twice the nominal size.
\<close>

lemma open_payload_alloc_bound:
  assumes "xyzimage_open_payload hst rfn img w error = (r, w', e')"
  shows "\<exists>new. trace w' = trace w @ new \<and>
     (\<forall>m. Alloc Open_compressed m \<in> set new \<or> Alloc Open_realloc m \<in> set new
        \<longrightarrow> m \<le> 2 * xyz_size (width img) (height img))"
proof -
  have inf: "w'' = w9"
    if "xyzimage_open_inflate hst img n res c w9 e = (r'', w'', e'')" for n res c w9 e r'' w'' e''
    using that
    by (auto simp: xyzimage_open_inflate_def Let_def split: prod.splits option.splits if_splits)
  from assms show ?thesis
    unfolding xyzimage_open_payload_def xyzimage_open_read_def xyzpriv_malloc_def call_read_def
      Let_def
    by (auto split: prod.splits if_splits sum.splits dest!: inf)
qed

section \<open>The invariant is lost in a failing write\<close>

lemma realloc_fails_host_simps [simp]:
  "is_big realloc_fails_host = False"
  "malloc_ok realloc_fails_host site n \<longleftrightarrow> site \<noteq> Write_realloc"
  "junk realloc_fails_host i = 0"
  "compressBound realloc_fails_host = stored_compressBound"
  "compress2 realloc_fails_host = stored_compress2"
  "uncompress realloc_fails_host = stored_uncompress"
  by (simp_all add: realloc_fails_host_def little_host_def)

text \<open>
  C8. The claim: for every live handle the invariant (a pixel buffer of \<open>width * height\<close>
  bytes, a palette of 256 entries) holds at construction and is preserved by every public
  operation, and no operation changes width, height or the buffer length. The code keeps it
  at construction and in \<open>xyzimage_set_compress_func\<close> (\<open>handle_invariant\<close>), and loses it in
  \<open>xyzimage_write\<close>: the 2 by 2 image of the spec's scenario is valid and has the invariant;
  written with its default compression function, the first compression reports
  \<open>XYZIMAGE_ERROR_BUFFER_TOO_SMALL\<close> (the bound 785 exceeds the capacity 772), the
  \<open>realloc\<close> to 1544 bytes fails, and \<open>xyzimage_write\<close> calls \<open>xyzimage_free\<close> on the
  caller's handle before it returns 0 with \<open>XYZIMAGE_ERROR_OUT_OF_MEMORY\<close>. The structure
  is left with a scrubbed marker, no pixel buffer and \<open>data_len = 0\<close> at width 2 and
  height 2: it is not valid and does not have the invariant. The failures of the two
  \<open>malloc\<close> calls before it in the same function leave the handle as it was
  (\<open>write_malloc_failure_keeps\<close>).
\<close>

theorem write_realloc_failure_breaks_invariant:
  "xyzimage_is_valid (Some example_image) \<and> handle_inv example_image \<and>
   xyzimage_write realloc_fails_host (Some example_image) empty_file
       (Some xyzpriv_fwrite_func) (Some XYZIMAGE_ERROR_OK) =
     (0,
      Some (example_image\<lparr>header := [0x21, 0x58, 0x59, 0x5A], data_len := 0, data := None\<rparr>),
      empty_file\<lparr>trace := [Alloc Write_decompressed 772, Alloc Write_compressed 772,
         Compress 772, Alloc Write_realloc 1544]\<rparr>,
      Some XYZIMAGE_ERROR_OUT_OF_MEMORY) \<and>
   \<not> xyzimage_is_valid
       (Some (example_image\<lparr>header := [0x21, 0x58, 0x59, 0x5A], data_len := 0, data := None\<rparr>)) \<and>
   \<not> handle_inv
       (example_image\<lparr>header := [0x21, 0x58, 0x59, 0x5A], data_len := 0, data := None\<rparr>) \<and>
   width (example_image\<lparr>header := [0x21, 0x58, 0x59, 0x5A], data_len := 0, data := None\<rparr>) = 2 \<and>
   height (example_image\<lparr>header := [0x21, 0x58, 0x59, 0x5A], data_len := 0, data := None\<rparr>) = 2"
proof -
  let ?buf = "xyzimage_write_fill realloc_fails_host example_image"
  let ?stale = "example_image\<lparr>header := [0x21, 0x58, 0x59, 0x5A], data_len := 0, data := None\<rparr>"
  have len: "length ?buf = 772"
    by (simp add: length_write_fill)
  have c1: "xyzpriv_compress_func little_host ?buf 772
      = ([], Some XYZIMAGE_ERROR_BUFFER_TOO_SMALL)"
    by (rule compress_func_too_small) (simp add: len stored_compressBound_def)
  have h: "header example_image = struct_magic"
    by (simp add: example_image_def xyzpriv_alloc_def)
  have fr: "snd (xyzimage_free (Some example_image)) = Some ?stale"
    by (simp add: xyzimage_free_def h struct_magic_def)
  have wr: "xyzimage_write realloc_fails_host (Some example_image) empty_file
       (Some xyzpriv_fwrite_func) (Some XYZIMAGE_ERROR_OK) =
     (0, snd (xyzimage_free (Some example_image)),
      empty_file\<lparr>trace := trace empty_file @
         [Alloc Write_decompressed 772, Alloc Write_compressed 772, Compress 772,
          Alloc Write_realloc (772 * 2)]\<rparr>,
      xyzpriv_set_error (Some XYZIMAGE_ERROR_OK) XYZIMAGE_ERROR_OUT_OF_MEMORY) \<and>
     \<not> xyzimage_is_valid (snd (xyzimage_free (Some example_image)))"
    by (rule write_realloc_failure_releases [where ?out1.0 = "[]"]) (simp_all add: c1)
  have inv: "\<not> handle_inv ?stale"
    by (simp add: handle_inv_def)
  from wr inv show ?thesis
    by (simp add: fr xyzpriv_set_error_def empty_file_def)
qed

end
